theory Spec2Isabelle
  imports Complex_Main "HOL-Library.Option_ord" "HOL-Library.Product_Lexorder"
begin

section \<open>Strings and upstream data\<close>

text \<open>
  Python strings are sequences of code points, so a string is a list of code points
  (\<open>nat\<close>); slicing such as \<open>erp_goods_id[3:]\<close> then counts what Python counts.
  \<open>asc\<close> embeds an ASCII literal.
\<close>

type_synonym pystr = "nat list"

definition asc :: "string \<Rightarrow> pystr" where
  "asc s = map of_char s"

text \<open>The non-ASCII literals of \<open>ErpOrder.py\<close>, by code point.\<close>

definition lbl_wechat :: pystr where
  "lbl_wechat = [0x5FAE, 0x4FE1]"

definition lbl_app :: pystr where
  "lbl_app = asc ''APP''"

definition lbl_web :: pystr where
  "lbl_web = [0x7F51, 0x9875]"

definition lbl_mini_program :: pystr where
  "lbl_mini_program = [0x5C0F, 0x7A0B, 0x5E8F]"

definition lbl_unknown :: pystr where
  "lbl_unknown = [0x672A, 0x77E5, 0x6765, 0x6E90]"

definition online_pay :: pystr where
  "online_pay = [0x7EBF, 0x4E0A, 0x652F, 0x4ED8]"

definition online_paid_marker :: pystr where
  "online_paid_marker = [0x7EBF, 0x4E0A, 0x5DF2, 0x4ED8, 0x6B3E, 0x3B]"

definition discount_label :: pystr where
  "discount_label = [0x8BA2, 0x5355, 0x4F18, 0x60E0, 0x3A]"

definition herbal_value :: pystr where
  "herbal_value = [0x4E2D, 0x836F, 0x996E, 0x7247]"

definition herbal_prefix :: pystr where
  "herbal_prefix = asc ''Biz_'' @ [0x51EF, 0x5F52, 0x4F17, 0x6C11, 0x4E2D, 0x836F] @ asc ''SCM.dbo.''"

definition standard_prefix :: pystr where
  "standard_prefix = asc ''Biz_'' @ [0x51EF, 0x5F52, 0x4F17, 0x6C11] @ asc ''SCM.dbo.''"

text \<open>
  \<open>str\<close> of a Python \<open>int\<close>, as an f-string renders it: decimal digits, with a
  minus sign for a negative number.
\<close>

function str_nat :: "nat \<Rightarrow> pystr" where
  "str_nat n = (if n < 10 then [48 + n] else str_nat (n div 10) @ [48 + n mod 10])"
  by pat_completeness auto
termination
  by (relation "measure id") auto

declare str_nat.simps [simp del]

definition str_int :: "int \<Rightarrow> pystr" where
  "str_int i = (if i < 0 then 45 # str_nat (nat (- i)) else str_nat (nat i))"

text \<open>
  An upstream order is a JSON object. A key the code reads with \<open>d['k']\<close> is a field;
  a key it reads with \<open>d.get('k')\<close> is an optional field (\<open>None\<close>: the key is
  absent). \<open>price_records\<close> is flattened into the line. Amounts that the code
  formats into text are JSON integers; prices and fees are exact rationals.
\<close>

record split_rule =
  rule_no :: "int option"
  rule_value :: "pystr option"

record order_item =
  erp_sku_sn :: pystr
  erp_goods_id :: pystr
  erp_stock_id :: "pystr option"
  selected_batch_code :: pystr
  selected_batch_times :: int
  quantity :: int
  sale_price :: rat
  weight_whole_price :: rat
  is_gift :: bool

record order =
  order_id :: int
  sub_order_sn :: pystr
  erp_customer_id :: "pystr option"
  erp_customer_no :: pystr
  created_at :: pystr
  split_rules :: "split_rule list option"
  order_discount_total :: int
  pay_method :: pystr
  source :: pystr
  message :: "pystr option"
  goods_total_fee :: rat
  sub_order_total_fee :: rat
  order_goods :: "order_item list"

text \<open>
  What \<open>sync_order\<close> is given: an order, or an object without the key
  \<open>sub_order_sn\<close>. The first statement of \<open>sync_order\<close> reads that key, so nothing
  else of such an object is ever read.
\<close>

datatype order_data = Order order | NoOrderNumber

section \<open>Namespace resolution and remark composition\<close>

text \<open>\<open>get_database_prefix\<close>: \<open>any\<close> over the rules with \<open>rule_no == 4\<close>.\<close>

definition get_database_prefix :: "order \<Rightarrow> pystr" where
  "get_database_prefix od =
     (let rules = (case split_rules od of None \<Rightarrow> [] | Some rs \<Rightarrow> rs);
          is_herbal = list_ex (\<lambda>rule. rule_value rule = Some herbal_value)
                        (filter (\<lambda>rule. rule_no rule = Some 4) rules)
      in if is_herbal then herbal_prefix else standard_prefix)"

text \<open>\<open>get_source\<close>: the dictionary lookup with its default.\<close>

definition sources :: "pystr \<rightharpoonup> pystr" where
  "sources = [asc ''wechat'' \<mapsto> lbl_wechat, asc ''app'' \<mapsto> lbl_app,
              asc ''web'' \<mapsto> lbl_web, asc ''mini_program'' \<mapsto> lbl_mini_program]"

definition get_source :: "pystr \<Rightarrow> pystr" where
  "get_source src = (case sources src of Some l \<Rightarrow> l | None \<Rightarrow> lbl_unknown)"

text \<open>
  The two remark columns of \<open>insert_sheet_order\<close>: \<open>discount_msg\<close>,
  \<open>payment_status\<close>, and the two f-strings built from them.
\<close>

definition discount_msg :: "order \<Rightarrow> pystr" where
  "discount_msg od =
     (if order_discount_total od > 0 then discount_label @ str_int (order_discount_total od)
      else [])"

definition payment_status :: "order \<Rightarrow> pystr" where
  "payment_status od = (if pay_method od = online_pay then online_paid_marker else [])"

definition header_remark :: "order \<Rightarrow> pystr" where
  "header_remark od =
     get_source (source od) @ asc '';'' @ pay_method od @ asc '';'' @ discount_msg od"

definition header_customer_note :: "order \<Rightarrow> pystr" where
  "header_customer_note od =
     payment_status od @ (case message od of None \<Rightarrow> [] | Some m \<Rightarrow> m)"

section \<open>The database\<close>

text \<open>
  Rows of the tables the engine reads and writes, with the columns the engine's control
  flow, its remark composition, its batch selection and its arithmetic depend on. A
  nullable column is an \<open>option\<close>. SQL numerics are exact rationals. A date column is
  the position of its style-120 text (\<open>yyyy-mm-dd hh:mi:ss\<close>) in the order of such
  texts, which is the order of the dates. String comparison in SQL is equality of the
  strings.
\<close>

record customer =
  c_id :: int
  c_no :: pystr
  c_address_id :: "int option"
  c_salesman :: "int option"
  c_biller :: "int option"
  c_user_id :: "int option"

record sheet_root =
  sr_id :: int
  sr_no :: pystr
  sr_date :: pystr
  sr_operator :: "int option"
  sr_state_flow :: "int option"

record status_flow =
  sf_id :: int
  sf_sheet :: int
  sf_date :: pystr
  sf_operator :: int

record sheet_order =
  so_id :: int
  so_no :: pystr
  so_date :: pystr
  so_customer :: int
  so_department :: int
  so_remark :: pystr
  so_note :: pystr
  so_total :: rat
  so_refund_total :: rat

record order_detail =
  od_pid :: int
  od_rid :: nat
  od_goods :: pystr
  od_batch :: int
  od_pack :: rat
  od_quantity :: int
  od_price :: rat
  od_tax :: "rat option"
  od_out_tax :: "rat option"
  od_amount :: rat
  od_profit :: "rat option"
  od_profit_rate :: "rat option"
  od_assess_amount :: rat

record batch_row =
  sb_oid :: pystr
  sb_id :: int
  sb_print_no :: pystr
  sb_expiry :: "nat option"
  sb_produced :: "nat option"

record ledger_row =
  lg_goods :: pystr
  lg_batch :: int
  lg_batch_no :: pystr
  lg_pack :: rat
  lg_qty :: "rat option"
  lg_transit :: "rat option"
  lg_reserved :: "rat option"
  lg_org :: "int option"
  lg_kind :: "int option"
  lg_cost :: "rat option"

record abc_row =
  ab_goods :: pystr
  ab_batch :: int
  ab_org :: "int option"
  ab_price :: "rat option"

record goods_row =
  g_id :: pystr
  g_tax :: "rat option"
  g_out_tax :: "rat option"

record mid_order =
  mo_number :: pystr
  mo_customer :: "pystr option"

text \<open>
  The tables of one namespace. \<open>customers\<close> holds the rows of the customer join of
  \<open>get_customer_info\<close>, in the order the server returns them.
\<close>

record tables =
  customers :: "customer list"
  sheet_roots :: "sheet_root list"
  status_flows :: "status_flow list"
  sheet_orders :: "sheet_order list"
  order_details :: "order_detail list"
  batches :: "batch_row list"
  ledger :: "ledger_row list"
  goods :: "goods_row list"
  mid_orders :: "mid_order list"

datatype event = Notify int | Commit | Rollback

text \<open>
  The connection. \<open>working\<close> is what the connection sees, \<open>durable\<close> what has been
  committed; both map a namespace prefix to its tables. \<open>abc_prices\<close> is the table the
  batch query names without a prefix. \<open>trace\<close> records commits, rollbacks and calls of
  the notify endpoint, in order.
\<close>

record db =
  working :: "pystr \<Rightarrow> tables"
  durable :: "pystr \<Rightarrow> tables"
  abc_prices :: "abc_row list"
  trace :: "event list"

definition commit :: "db \<Rightarrow> db" where
  "commit s = s\<lparr>durable := working s, trace := trace s @ [Commit]\<rparr>"

definition rollback :: "db \<Rightarrow> db" where
  "rollback s = s\<lparr>working := durable s, trace := trace s @ [Rollback]\<rparr>"

definition upd_tables :: "pystr \<Rightarrow> (tables \<Rightarrow> tables) \<Rightarrow> db \<Rightarrow> db" where
  "upd_tables database f s = s\<lparr>working := (working s)(database := f (working s database))\<rparr>"

datatype exn = ValueError | RuntimeError | TypeError | ZeroDivisionError | KeyError | DbError

text \<open>
  The statements that write, and the commit and the rollback of the transaction. The
  environment says which of them the server refuses, per order number.
\<close>

datatype stmt =
    InsertSheetRoots | InsertStatusFlow | UpdateSheetRoot | InsertSheetOrder
  | InsertDetail nat | UpdateStock nat | SaveMidOrder | CommitTxn | RollbackTxn

text \<open>The reply to the pull request: the request raises, or a JSON object arrives.\<close>

record pull_reply =
  reply_status :: "int option"
  reply_data :: "order_data list option"

datatype http_outcome = RequestException | Json pull_reply

record env =
  system_user_id :: int
  default_department :: int
  fails :: "pystr \<Rightarrow> stmt \<Rightarrow> bool"
  pull :: http_outcome

text \<open>
  Both helpers run their statement inside \<open>with self.db_conn.cursor()\<close>. The
  connection is not in autocommit mode, so the exit of that block commits when no
  exception passes through it. \<open>execute_query\<close> runs a statement and fetches its rows;
  \<open>execute_non_query\<close> runs a statement and calls \<open>cursor.commit()\<close> itself before
  the block ends. A commit makes durable everything the connection has written so far.
  A statement that raises changes nothing and commits nothing.
\<close>

definition execute_query :: "bool \<Rightarrow> (db \<Rightarrow> db) \<Rightarrow> 'a \<Rightarrow> db \<Rightarrow> (exn + 'a) \<times> db" where
  "execute_query refused stmt_effect rows s =
     (if refused then (Inl DbError, s) else (Inr rows, commit (stmt_effect s)))"

definition execute_non_query :: "bool \<Rightarrow> (db \<Rightarrow> db) \<Rightarrow> db \<Rightarrow> (exn + unit) \<times> db" where
  "execute_non_query refused stmt_effect s =
     (if refused then (Inl DbError, s) else (Inr (), commit (commit (stmt_effect s))))"

text \<open>What a function makes of the rows that \<open>execute_query\<close> returned.\<close>

definition returning :: "('a \<Rightarrow> 'b) \<Rightarrow> (exn + 'a) \<times> db \<Rightarrow> (exn + 'b) \<times> db" where
  "returning f r = (case r of (Inl e, s) \<Rightarrow> (Inl e, s) | (Inr rows, s) \<Rightarrow> (Inr (f rows), s))"

text \<open>The identity column: one more than the largest identifier in the table.\<close>

definition fresh_id :: "int list \<Rightarrow> int" where
  "fresh_id ids = fold max ids 0 + 1"

text \<open>
  \<open>RIGHT(?, LEN(?) - 3)\<close> on a product reference that carries its three-character
  marker and no trailing blanks, and Python's \<open>[3:]\<close>.
\<close>

definition strip_marker :: "pystr \<Rightarrow> pystr" where
  "strip_marker gid = drop 3 gid"

section \<open>Reads\<close>

text \<open>
  Each read is the rows its \<open>SELECT\<close> yields on the working tables, passed through
  \<open>execute_query\<close>, and what the function returns of them.
\<close>

definition customer_rows :: "order \<Rightarrow> pystr \<Rightarrow> db \<Rightarrow> customer list" where
  "customer_rows od database s =
     take 1 (filter (\<lambda>a. c_no a = erp_customer_no od) (customers (working s database)))"

definition get_customer_info :: "order \<Rightarrow> pystr \<Rightarrow> db \<Rightarrow> (exn + customer option) \<times> db" where
  "get_customer_info od database s =
     returning (\<lambda>result. case result of [] \<Rightarrow> None | a # _ \<Rightarrow> Some a)
       (execute_query False id (customer_rows od database s) s)"

definition order_rows :: "order \<Rightarrow> pystr \<Rightarrow> db \<Rightarrow> sheet_order list" where
  "order_rows od database s =
     filter (\<lambda>h. so_no h = sub_order_sn od) (sheet_orders (working s database))"

definition order_exists :: "order \<Rightarrow> pystr \<Rightarrow> db \<Rightarrow> (exn + bool) \<times> db" where
  "order_exists od database s =
     returning (\<lambda>result. result \<noteq> []) (execute_query False id (order_rows od database s) s)"

definition detail_count :: "int \<Rightarrow> pystr \<Rightarrow> db \<Rightarrow> nat list" where
  "detail_count sheet_root_id database s =
     [length (filter (\<lambda>d. od_pid d = sheet_root_id) (order_details (working s database)))]"

definition order_details_exist :: "int \<Rightarrow> pystr \<Rightarrow> db \<Rightarrow> (exn + bool) \<times> db" where
  "order_details_exist sheet_root_id database s =
     returning (\<lambda>result. case result of [] \<Rightarrow> False | cnt # _ \<Rightarrow> cnt > 0)
       (execute_query False id (detail_count sheet_root_id database s) s)"

subsection \<open>The batch query\<close>

definition left_join :: "'a list \<Rightarrow> 'b list \<Rightarrow> ('a \<Rightarrow> 'b \<Rightarrow> bool) \<Rightarrow> ('a \<times> 'b option) list" where
  "left_join xs ys on =
     concat (map (\<lambda>x. case filter (on x) ys of
                         [] \<Rightarrow> [(x, None)]
                       | m # ms \<Rightarrow> map (\<lambda>y. (x, Some y)) (m # ms)) xs)"

definition isnull :: "'a option \<Rightarrow> 'a \<Rightarrow> 'a" where
  "isnull v d = (case v of None \<Rightarrow> d | Some x \<Rightarrow> x)"

text \<open>\<open>CASE WHEN ISNULL(x, 0) <= 0 THEN 0 ELSE x END\<close>\<close>

definition positive_part :: "rat option \<Rightarrow> rat" where
  "positive_part v = (if isnull v 0 \<le> 0 then 0 else isnull v 0)"

text \<open>
  The \<open>qty\<close> column of the query: \<open>ISNULL(b.qty - in-transit - reserved, 0)\<close>, the two
  counters through \<open>positive_part\<close>; NULL, hence 0, when the batch has no ledger row or
  its quantity is NULL.
\<close>

definition unreserved_qty :: "ledger_row option \<Rightarrow> rat" where
  "unreserved_qty b =
     (case Option.bind b lg_qty of
        None \<Rightarrow> 0
      | Some q \<Rightarrow> q - positive_part (Option.bind b lg_transit)
                  - positive_part (Option.bind b lg_reserved))"

type_synonym joined_row = "(batch_row \<times> ledger_row option) \<times> abc_row option"

definition batch_join :: "pystr \<Rightarrow> db \<Rightarrow> joined_row list" where
  "batch_join database s =
     left_join
       (left_join (batches (working s database)) (ledger (working s database))
          (\<lambda>a b. sb_oid a = lg_goods b \<and> sb_id a = lg_batch b \<and> lg_kind b = Some 0))
       (abc_prices s)
       (\<lambda>(a, b) c. case b of
                     None \<Rightarrow> False
                   | Some l \<Rightarrow> lg_goods l = ab_goods c \<and> lg_batch l = ab_batch c
                              \<and> lg_org l \<noteq> None \<and> lg_org l = ab_org c)"

definition has_batch_hint :: "order_item \<Rightarrow> bool" where
  "has_batch_hint item = (case erp_stock_id item of None \<Rightarrow> False | Some v \<Rightarrow> v \<noteq> [])"

definition batch_where :: "order_item \<Rightarrow> joined_row \<Rightarrow> bool" where
  "batch_where item r =
     (case r of ((a, b), c) \<Rightarrow>
        sb_oid a \<noteq> asc ''-1''
        \<and> isnull (Option.bind b lg_org) 1 = 1
        \<and> isnull (Option.bind b lg_kind) 0 = 0
        \<and> sb_oid a = strip_marker (erp_goods_id item)
        \<and> (if has_batch_hint item
            then sb_print_no a = selected_batch_code item \<and> sb_id a = selected_batch_times item
            else True)
        \<and> unreserved_qty b > 0)"

definition batch_order_key :: "joined_row \<Rightarrow> nat option \<times> nat option \<times> rat option" where
  "batch_order_key r = (case r of ((a, b), c) \<Rightarrow> (sb_expiry a, sb_produced a, map_option lg_pack b))"

record batch =
  batch_code :: pystr
  batch_times :: int
  bz :: "rat option"
  batch_reserved :: "rat option"
  assess_price :: rat
  qty :: rat

definition select_columns :: "joined_row \<Rightarrow> batch" where
  "select_columns r =
     (case r of ((a, b), c) \<Rightarrow>
        \<lparr>batch_code = sb_print_no a, batch_times = sb_id a, bz = map_option lg_pack b,
         batch_reserved = Option.bind b lg_reserved,
         assess_price = isnull (Option.bind c ab_price) 0, qty = unreserved_qty b\<rparr>)"

text \<open>
  The rows of \<open>SELECT TOP 1 ... WHERE ... ORDER BY\<close>. Among rows with equal keys the
  server may return any; here it is the earliest in table order.
\<close>

definition eligible_rows :: "order_item \<Rightarrow> pystr \<Rightarrow> db \<Rightarrow> joined_row list" where
  "eligible_rows item database s = filter (batch_where item) (batch_join database s)"

definition batch_rows :: "order_item \<Rightarrow> pystr \<Rightarrow> db \<Rightarrow> batch list" where
  "batch_rows item database s =
     map select_columns (take 1 (sort_key batch_order_key (eligible_rows item database s)))"

definition get_item_batch :: "order_item \<Rightarrow> pystr \<Rightarrow> db \<Rightarrow> (exn + batch option) \<times> db" where
  "get_item_batch item database s =
     returning (\<lambda>result. case result of [] \<Rightarrow> None | r # _ \<Rightarrow> Some r)
       (execute_query False id (batch_rows item database s) s)"

subsection \<open>Tax and profit\<close>

definition tax_rows :: "order_item \<Rightarrow> pystr \<Rightarrow> db \<Rightarrow> (rat option \<times> rat option) list" where
  "tax_rows item database s =
     map (\<lambda>a. (g_tax a, g_out_tax a))
       (filter (\<lambda>a. g_id a = strip_marker (erp_goods_id item)) (goods (working s database)))"

definition get_item_tax_info :: "order_item \<Rightarrow> pystr \<Rightarrow> db \<Rightarrow> (exn + rat option \<times> rat option) \<times> db" where
  "get_item_tax_info item database s =
     returning (\<lambda>result. case result of [] \<Rightarrow> (Some 0, Some 0) | r # _ \<Rightarrow> r)
       (execute_query False id (tax_rows item database s) s)"

text \<open>\<open>ROUND(x, 2)\<close>: to two decimals, halves away from zero.\<close>

definition sql_round2 :: "rat \<Rightarrow> rat" where
  "sql_round2 x =
     (if x \<ge> 0 then of_int \<lfloor>x * 100 + 1 / 2\<rfloor> / 100
      else - (of_int \<lfloor>- x * 100 + 1 / 2\<rfloor> / 100))"

text \<open>SQL division: NULL with a NULL operand, an error on a zero divisor.\<close>

definition sql_div :: "rat option \<Rightarrow> rat option \<Rightarrow> exn + rat option" where
  "sql_div x y =
     (case (x, y) of
        (Some a, Some b) \<Rightarrow> (if b = 0 then Inl DbError else Inr (Some (a / b)))
      | _ \<Rightarrow> Inr None)"

record profit_info =
  profit :: "rat option"
  profit_rate :: "rat option"

text \<open>The two select-list expressions of \<open>get_item_profit\<close> on one ledger row.\<close>

definition profit_columns :: "order_item \<Rightarrow> ledger_row \<Rightarrow> exn + profit_info" where
  "profit_columns item a =
     (let price = sale_price item; q = of_int (quantity item) in
      case sql_div (lg_cost a) (lg_qty a) of
        Inl e \<Rightarrow> Inl e
      | Inr unit_cost \<Rightarrow>
          (let margin = map_option (\<lambda>u. price * q - u * q) unit_cost in
           case sql_div margin (Some (price * q)) of
             Inl e \<Rightarrow> Inl e
           | Inr ratio \<Rightarrow>
               Inr \<lparr>profit = map_option sql_round2 margin,
                    profit_rate = map_option (\<lambda>r. sql_round2 r * 100) ratio\<rparr>))"

fun fetchall :: "(exn + 'a) list \<Rightarrow> exn + 'a list" where
  "fetchall [] = Inr []"
| "fetchall (Inl e # rs) = Inl e"
| "fetchall (Inr x # rs) = (case fetchall rs of Inl e \<Rightarrow> Inl e | Inr xs \<Rightarrow> Inr (x # xs))"

definition profit_matches :: "order_item \<Rightarrow> batch \<Rightarrow> ledger_row \<Rightarrow> bool" where
  "profit_matches item b a =
     (lg_goods a = strip_marker (erp_goods_id item) \<and> lg_batch_no a = batch_code b
      \<and> lg_batch a = batch_times b)"

text \<open>
  \<open>get_item_profit\<close>: a division by zero on any matching row makes the statement
  raise, inside the \<open>with\<close> block.
\<close>

definition get_item_profit :: "order_item \<Rightarrow> batch \<Rightarrow> pystr \<Rightarrow> db \<Rightarrow> (exn + profit_info) \<times> db" where
  "get_item_profit item b database s =
     (case fetchall (map (profit_columns item)
                      (filter (profit_matches item b) (ledger (working s database)))) of
        Inl e \<Rightarrow> (Inl e, s)
      | Inr rows \<Rightarrow>
          returning (\<lambda>result. case result of
                                [] \<Rightarrow> \<lparr>profit = Some 0, profit_rate = Some 0\<rparr>
                              | r # _ \<Rightarrow> r)
            (execute_query False id rows s))"

section \<open>Writes\<close>

text \<open>
  The two inserts with \<open>OUTPUT INSERTED._id\<close> go through \<open>execute_query\<close>; every other
  write goes through \<open>execute_non_query\<close>.
\<close>

definition insert_sheet_roots :: "env \<Rightarrow> order \<Rightarrow> customer \<Rightarrow> pystr \<Rightarrow> db \<Rightarrow> (exn + int) \<times> db" where
  "insert_sheet_roots ev od cust database s =
     (let new_id = fresh_id (map sr_id (sheet_roots (working s database)));
          row = \<lparr>sr_id = new_id, sr_no = sub_order_sn od, sr_date = created_at od,
                 sr_operator = c_user_id cust, sr_state_flow = None\<rparr>
      in execute_query (fails ev (sub_order_sn od) InsertSheetRoots)
           (upd_tables database (\<lambda>t. t\<lparr>sheet_roots := sheet_roots t @ [row]\<rparr>)) new_id s)"

definition insert_status_flow :: "env \<Rightarrow> order \<Rightarrow> int \<Rightarrow> pystr \<Rightarrow> db \<Rightarrow> (exn + int) \<times> db" where
  "insert_status_flow ev od sheet_root_id database s =
     (let new_id = fresh_id (map sf_id (status_flows (working s database)));
          row = \<lparr>sf_id = new_id, sf_sheet = sheet_root_id, sf_date = created_at od,
                 sf_operator = system_user_id ev\<rparr>
      in execute_query (fails ev (sub_order_sn od) InsertStatusFlow)
           (upd_tables database (\<lambda>t. t\<lparr>status_flows := status_flows t @ [row]\<rparr>)) new_id s)"

definition update_sheet_root_status :: "bool \<Rightarrow> int \<Rightarrow> int \<Rightarrow> pystr \<Rightarrow> db \<Rightarrow> (exn + unit) \<times> db" where
  "update_sheet_root_status refused sheet_root_id status_flow_id database s =
     execute_non_query refused
       (upd_tables database
          (\<lambda>t. t\<lparr>sheet_roots :=
                    map (\<lambda>r. if sr_id r = sheet_root_id
                              then r\<lparr>sr_state_flow := Some status_flow_id\<rparr> else r)
                        (sheet_roots t)\<rparr>)) s"

definition insert_sheet_order :: "env \<Rightarrow> int \<Rightarrow> order \<Rightarrow> customer \<Rightarrow> pystr \<Rightarrow> db \<Rightarrow> (exn + unit) \<times> db" where
  "insert_sheet_order ev sheet_root_id od cust database s =
     (let row = \<lparr>so_id = sheet_root_id, so_no = sub_order_sn od, so_date = created_at od,
                 so_customer = c_id cust, so_department = default_department ev,
                 so_remark = header_remark od, so_note = header_customer_note od,
                 so_total = goods_total_fee od, so_refund_total = sub_order_total_fee od\<rparr>
      in execute_non_query (fails ev (sub_order_sn od) InsertSheetOrder)
           (upd_tables database (\<lambda>t. t\<lparr>sheet_orders := sheet_orders t @ [row]\<rparr>)) s)"

text \<open>
  \<open>update_stock_concurrency\<close>: the \<open>UPDATE\<close> of the reservation column on the ledger
  rows of the product, batch and pack. \<open>NULL + q\<close> is NULL.
\<close>

definition stock_row_matches :: "order_item \<Rightarrow> batch \<Rightarrow> ledger_row \<Rightarrow> bool" where
  "stock_row_matches item b a =
     (lg_org a = Some 1 \<and> lg_goods a = strip_marker (erp_goods_id item)
      \<and> lg_batch a = batch_times b \<and> Some (lg_pack a) = bz b
      \<and> isnull (lg_org a) 1 = 1 \<and> isnull (lg_kind a) 0 = 0)"

definition reserve :: "order_item \<Rightarrow> batch \<Rightarrow> ledger_row \<Rightarrow> ledger_row" where
  "reserve item b a =
     (if stock_row_matches item b a
      then a\<lparr>lg_reserved := map_option (\<lambda>r. r + of_int (quantity item)) (lg_reserved a)\<rparr>
      else a)"

definition update_stock_concurrency :: "bool \<Rightarrow> order_item \<Rightarrow> batch \<Rightarrow> pystr \<Rightarrow> db \<Rightarrow> (exn + unit) \<times> db" where
  "update_stock_concurrency refused item b database s =
     execute_non_query refused
       (upd_tables database (\<lambda>t. t\<lparr>ledger := map (reserve item b) (ledger t)\<rparr>)) s"

text \<open>
  The parameter tuple of the detail insert. Python evaluates it before the statement
  runs: \<open>quantity / bz\<close> raises on a pack that is \<open>None\<close> or zero.
\<close>

definition detail_params :: "int \<Rightarrow> nat \<Rightarrow> order_item \<Rightarrow> batch \<Rightarrow> rat option \<times> rat option \<Rightarrow> profit_info \<Rightarrow> exn + order_detail" where
  "detail_params sheet_root_id idx item b tax_info pinfo =
     (case bz b of
        None \<Rightarrow> Inl TypeError
      | Some pack \<Rightarrow>
          if pack = 0 then Inl ZeroDivisionError
          else Inr \<lparr>od_pid = sheet_root_id, od_rid = idx,
                    od_goods = strip_marker (erp_goods_id item), od_batch = batch_times b,
                    od_pack = pack, od_quantity = quantity item, od_price = sale_price item,
                    od_tax = fst tax_info, od_out_tax = snd tax_info,
                    od_amount = sale_price item * of_int (quantity item),
                    od_profit = profit pinfo, od_profit_rate = profit_rate pinfo,
                    od_assess_amount = assess_price b * of_int (quantity item)\<rparr>)"

text \<open>
  The loop of \<open>insert_order_details\<close> over \<open>enumerate(order_goods, start=1)\<close>:
  \<open>idx\<close> is the position of the line; a line without a batch is passed over.
\<close>

fun details_loop :: "env \<Rightarrow> int \<Rightarrow> pystr \<Rightarrow> pystr \<Rightarrow> nat \<Rightarrow> order_item list \<Rightarrow> db \<Rightarrow> (exn + unit) \<times> db" where
  "details_loop ev sheet_root_id sn database idx [] s = (Inr (), s)"
| "details_loop ev sheet_root_id sn database idx (item # items) s =
     (case get_item_batch item database s of
        (Inl e, s1) \<Rightarrow> (Inl e, s1)
      | (Inr None, s1) \<Rightarrow> details_loop ev sheet_root_id sn database (Suc idx) items s1
      | (Inr (Some b), s1) \<Rightarrow>
     (case get_item_tax_info item database s1 of
        (Inl e, s2) \<Rightarrow> (Inl e, s2)
      | (Inr tax_info, s2) \<Rightarrow>
     (case get_item_profit item b database s2 of
        (Inl e, s3) \<Rightarrow> (Inl e, s3)
      | (Inr pinfo, s3) \<Rightarrow>
     (case detail_params sheet_root_id idx item b tax_info pinfo of
        Inl e \<Rightarrow> (Inl e, s3)
      | Inr row \<Rightarrow>
     (case execute_non_query (fails ev sn (InsertDetail idx))
             (upd_tables database (\<lambda>t. t\<lparr>order_details := order_details t @ [row]\<rparr>)) s3 of
        (Inl e, s4) \<Rightarrow> (Inl e, s4)
      | (Inr u, s4) \<Rightarrow>
     (case update_stock_concurrency (fails ev sn (UpdateStock idx)) item b database s4 of
        (Inl e, s5) \<Rightarrow> (Inl e, s5)
      | (Inr u, s5) \<Rightarrow> details_loop ev sheet_root_id sn database (Suc idx) items s5))))))"

definition insert_order_details :: "env \<Rightarrow> int \<Rightarrow> order \<Rightarrow> pystr \<Rightarrow> db \<Rightarrow> (exn + unit) \<times> db" where
  "insert_order_details ev sheet_root_id od database s =
     details_loop ev sheet_root_id (sub_order_sn od) database 1 (order_goods od) s"

definition save_mid_order :: "env \<Rightarrow> order \<Rightarrow> pystr \<Rightarrow> db \<Rightarrow> (exn + unit) \<times> db" where
  "save_mid_order ev od database s =
     (let row = \<lparr>mo_number = sub_order_sn od, mo_customer = erp_customer_id od\<rparr>
      in execute_non_query (fails ev (sub_order_sn od) SaveMidOrder)
           (upd_tables database (\<lambda>t. t\<lparr>mid_orders := mid_orders t @ [row]\<rparr>)) s)"

text \<open>
  \<open>notify_order_sync_success\<close>: \<open>send_request\<close> catches what the request raises, so the
  call returns whatever the endpoint does.
\<close>

definition notify_order_sync_success :: "order \<Rightarrow> db \<Rightarrow> db" where
  "notify_order_sync_success od s = s\<lparr>trace := trace s @ [Notify (order_id od)]\<rparr>"

section \<open>The orchestrator\<close>

definition truthy :: "pystr option \<Rightarrow> bool" where
  "truthy v = (case v of None \<Rightarrow> False | Some x \<Rightarrow> x \<noteq> [])"

text \<open>
  The body of the \<open>try\<close> block of \<open>sync_order\<close> for an order that has its number, in
  the order of its statements. \<open>Inl\<close> is an exception that reaches the handler.
\<close>

definition sync_order_try :: "env \<Rightarrow> order \<Rightarrow> db \<Rightarrow> (exn + bool) \<times> db" where
  "sync_order_try ev od s =
     (let database = get_database_prefix od in
      if \<not> truthy (erp_customer_id od) then (Inl ValueError, s)
      else
       (case get_customer_info od database s of
          (Inl e, s0) \<Rightarrow> (Inl e, s0)
        | (Inr None, s0) \<Rightarrow> (Inr False, s0)
        | (Inr (Some cust), s0) \<Rightarrow>
       (case order_exists od database s0 of
          (Inl e, s') \<Rightarrow> (Inl e, s')
        | (Inr True, s') \<Rightarrow> (Inr True, s')
        | (Inr False, s') \<Rightarrow>
       (case insert_sheet_roots ev od cust database s' of
          (Inl e, s1) \<Rightarrow> (Inl e, s1)
        | (Inr sheet_root_id, s1) \<Rightarrow>
       (case insert_status_flow ev od sheet_root_id database s1 of
          (Inl e, s2) \<Rightarrow> (Inl e, s2)
        | (Inr status_flow_id, s2) \<Rightarrow>
       (case update_sheet_root_status (fails ev (sub_order_sn od) UpdateSheetRoot)
               sheet_root_id status_flow_id database s2 of
          (Inl e, s3) \<Rightarrow> (Inl e, s3)
        | (Inr u, s3) \<Rightarrow>
       (case insert_sheet_order ev sheet_root_id od cust database s3 of
          (Inl e, s4) \<Rightarrow> (Inl e, s4)
        | (Inr u, s4) \<Rightarrow>
       (case insert_order_details ev sheet_root_id od database s4 of
          (Inl e, s5) \<Rightarrow> (Inl e, s5)
        | (Inr u, s5) \<Rightarrow>
       (case save_mid_order ev od database s5 of
          (Inl e, s6) \<Rightarrow> (Inl e, s6)
        | (Inr u, s6) \<Rightarrow>
       (case order_details_exist sheet_root_id database s6 of
          (Inl e, s7) \<Rightarrow> (Inl e, s7)
        | (Inr False, s7) \<Rightarrow> (Inl RuntimeError, s7)
        | (Inr True, s7) \<Rightarrow>
       (let s8 = notify_order_sync_success od s7 in
        if fails ev (sub_order_sn od) CommitTxn then (Inl DbError, s8)
        else (Inr True, commit s8))))))))))))"

text \<open>
  \<open>sync_order\<close>. The handler calls \<open>rollback\<close> and then formats the log line from
  \<open>order_data['sub_order_sn']\<close>, and returns \<open>False\<close>; neither call is guarded, so a
  refused rollback, or the missing key, leaves \<open>sync_order\<close> as an exception. For an
  object without the key the \<open>try\<close> block raises at its first statement.
\<close>

definition sync_order :: "env \<Rightarrow> order_data \<Rightarrow> db \<Rightarrow> (exn + bool) \<times> db" where
  "sync_order ev order_data s =
     (case order_data of
        NoOrderNumber \<Rightarrow> (Inl KeyError, rollback s)
      | Order od \<Rightarrow>
          (case sync_order_try ev od s of
             (Inr ok, s') \<Rightarrow> (Inr ok, s')
           | (Inl e, s') \<Rightarrow>
               if fails ev (sub_order_sn od) RollbackTxn then (Inl DbError, s')
               else (Inr False, rollback s')))"

text \<open>\<open>send_request\<close> for the pull, and \<open>get_orders_from_yq\<close>.\<close>

definition send_request :: "http_outcome \<Rightarrow> pull_reply" where
  "send_request outcome =
     (case outcome of
        RequestException \<Rightarrow> \<lparr>reply_status = Some 0, reply_data = None\<rparr>
      | Json response \<Rightarrow> response)"

definition get_orders_from_yq :: "env \<Rightarrow> order_data list" where
  "get_orders_from_yq ev =
     (let response = send_request (pull ev) in
      if reply_status response = Some 1
      then (case reply_data response of None \<Rightarrow> [] | Some orders \<Rightarrow> orders)
      else [])"

text \<open>
  The loop of \<open>sync_all_orders\<close> has no handler of its own: an exception that leaves
  \<open>sync_order\<close> leaves \<open>sync_all_orders\<close>.
\<close>

fun sync_loop :: "env \<Rightarrow> order_data list \<Rightarrow> nat \<Rightarrow> db \<Rightarrow> (exn + nat) \<times> db" where
  "sync_loop ev [] success_count s = (Inr success_count, s)"
| "sync_loop ev (od # orders) success_count s =
     (case sync_order ev od s of
        (Inl e, s') \<Rightarrow> (Inl e, s')
      | (Inr ok, s') \<Rightarrow>
          sync_loop ev orders (if ok then success_count + 1 else success_count) s')"

definition sync_all_orders :: "env \<Rightarrow> db \<Rightarrow> (exn + nat) \<times> db" where
  "sync_all_orders ev s =
     (let orders = get_orders_from_yq ev in
      if orders = [] then (Inr 0, s) else sync_loop ev orders 0 s)"

section \<open>Specification-side definitions and sample data\<close>

text \<open>
  The run of a batch as the specification describes it: every order is synced in turn,
  each in the state its predecessor left, and its outcome is recorded.
\<close>

fun sync_run :: "env \<Rightarrow> order_data list \<Rightarrow> db \<Rightarrow> ((exn + bool) \<times> db) list" where
  "sync_run ev [] s = []"
| "sync_run ev (od # orders) s =
     sync_order ev od s # sync_run ev orders (snd (sync_order ev od s))"

definition begins_with :: "pystr \<Rightarrow> pystr \<Rightarrow> bool" where
  "begins_with marker txt = (take (length marker) txt = marker)"

text \<open>
  A small database: one customer, one product with two batches, and an order of two
  units of that product.
\<close>

definition ex_tables :: tables where
  "ex_tables =
     \<lparr>customers = [\<lparr>c_id = 7, c_no = asc ''C001'', c_address_id = Some 3, c_salesman = Some 5,
                     c_biller = Some 6, c_user_id = Some 9\<rparr>],
      sheet_roots = [], status_flows = [], sheet_orders = [], order_details = [],
      batches = [\<lparr>sb_oid = asc ''1001'', sb_id = 1, sb_print_no = asc ''B1'',
                   sb_expiry = Some 20, sb_produced = Some 10\<rparr>,
                 \<lparr>sb_oid = asc ''1001'', sb_id = 2, sb_print_no = asc ''B2'',
                   sb_expiry = Some 10, sb_produced = Some 5\<rparr>],
      ledger = [\<lparr>lg_goods = asc ''1001'', lg_batch = 1, lg_batch_no = asc ''B1'', lg_pack = 10,
                  lg_qty = Some 100, lg_transit = Some 0, lg_reserved = Some 5,
                  lg_org = Some 1, lg_kind = Some 0, lg_cost = Some 200\<rparr>,
                \<lparr>lg_goods = asc ''1001'', lg_batch = 2, lg_batch_no = asc ''B2'', lg_pack = 10,
                  lg_qty = Some 50, lg_transit = None, lg_reserved = Some 4,
                  lg_org = Some 1, lg_kind = Some 0, lg_cost = Some 100\<rparr>],
      goods = [], mid_orders = []\<rparr>"

definition ex_db :: db where
  "ex_db = \<lparr>working = (\<lambda>p. ex_tables), durable = (\<lambda>p. ex_tables), abc_prices = [], trace = []\<rparr>"

definition ex_item :: order_item where
  "ex_item = \<lparr>erp_sku_sn = asc ''SKU1'', erp_goods_id = asc ''ERP1001'', erp_stock_id = None,
              selected_batch_code = [], selected_batch_times = 0, quantity = 2,
              sale_price = 3, weight_whole_price = 4, is_gift = False\<rparr>"

definition ex_order :: order where
  "ex_order = \<lparr>order_id = 1, sub_order_sn = asc ''SO1'', erp_customer_id = Some (asc ''88''),
               erp_customer_no = asc ''C001'', created_at = asc ''2024-01-01'',
               split_rules = None, order_discount_total = 50, pay_method = online_pay,
               source = asc ''wechat'', message = None, goods_total_fee = 6,
               sub_order_total_fee = 6, order_goods = [ex_item]\<rparr>"

definition ex_env :: "(pystr \<Rightarrow> stmt \<Rightarrow> bool) \<Rightarrow> http_outcome \<Rightarrow> env" where
  "ex_env f reply = \<lparr>system_user_id = 1, default_department = 2, fails = f, pull = reply\<rparr>"

definition herbal_order :: order where
  "herbal_order =
     ex_order\<lparr>split_rules := Some [\<lparr>rule_no = Some 1, rule_value = Some herbal_value\<rparr>,
                                    \<lparr>rule_no = Some 4, rule_value = Some herbal_value\<rparr>]\<rparr>"

text \<open>
  Environments: no statement refused; the commit refused; the first detail insert
  refused; for order SO1, the insert of the document root and the rollback refused.
\<close>

definition no_faults :: "pystr \<Rightarrow> stmt \<Rightarrow> bool" where
  "no_faults sn st = False"

text \<open>Variations of the sample order, line, batch and database used below.\<close>

definition cash_order :: order where
  "cash_order = ex_order\<lparr>pay_method := asc ''cash'', message := Some online_paid_marker\<rparr>"

definition ex_customer :: customer where
  "ex_customer = \<lparr>c_id = 7, c_no = asc ''C001'', c_address_id = Some 3, c_salesman = Some 5,
                   c_biller = Some 6, c_user_id = Some 9\<rparr>"

definition rate_item :: order_item where
  "rate_item = ex_item\<lparr>quantity := 1, sale_price := 1 / 2\<rparr>"

definition rate_batch :: batch where
  "rate_batch = \<lparr>batch_code = asc ''B1'', batch_times = 1, bz = Some 10,
                  batch_reserved = Some 0, assess_price = 0, qty = 1\<rparr>"

definition rate_db :: db where
  "rate_db =
     (let t = ex_tables\<lparr>ledger :=
       [\<lparr>lg_goods = asc ''1001'', lg_batch = 1, lg_batch_no = asc ''B1'', lg_pack = 10,
         lg_qty = Some 1, lg_transit = Some 0, lg_reserved = Some 0,
         lg_org = Some 1, lg_kind = Some 0, lg_cost = Some (31 / 64)\<rparr>]\<rparr>
      in \<lparr>working = (\<lambda>p. t), durable = (\<lambda>p. t), abc_prices = [], trace = []\<rparr>)"

definition no_ledger_batch :: batch where
  "no_ledger_batch = rate_batch\<lparr>batch_code := asc ''ZZ''\<rparr>"

text \<open>
  Eligibility of a batch and its ledger row for a line, as the specification words it:
  the batch is of the line's product and has an owner, the ledger row is the batch's, of
  type 0 and of organisation 1 (or none), the batch is the hinted one when the line
  carries a hint, and the on-hand quantity exists and exceeds the in-transit and the
  reserved quantity, each counted only when it is positive.
\<close>

definition counted :: "rat option \<Rightarrow> rat" where
  "counted v = (case v of None \<Rightarrow> 0 | Some x \<Rightarrow> max 0 x)"

definition batch_available :: "order_item \<Rightarrow> batch_row \<Rightarrow> ledger_row \<Rightarrow> bool" where
  "batch_available item a l =
     (sb_oid a = drop 3 (erp_goods_id item) \<and> sb_oid a \<noteq> asc ''-1''
      \<and> lg_goods l = sb_oid a \<and> lg_batch l = sb_id a \<and> lg_kind l = Some 0
      \<and> (lg_org l = None \<or> lg_org l = Some 1)
      \<and> (if has_batch_hint item
          then sb_print_no a = selected_batch_code item \<and> sb_id a = selected_batch_times item
          else True)
      \<and> (case lg_qty l of
            None \<Rightarrow> False
          | Some q \<Rightarrow> q - counted (lg_transit l) - counted (lg_reserved l) > 0))"

definition available_batches :: "order_item \<Rightarrow> pystr \<Rightarrow> db \<Rightarrow> (batch_row \<times> ledger_row) list" where
  "available_batches item database s =
     concat (map (\<lambda>a. map (\<lambda>l. (a, l))
                         (filter (batch_available item a) (ledger (working s database))))
                 (batches (working s database)))"

text \<open>
  The order of the batch query as the specification words it: ascending expiry date, then
  ascending production date, then ascending pack size. A missing date comes first.
\<close>

definition not_after :: "batch_row \<times> ledger_row \<Rightarrow> batch_row \<times> ledger_row \<Rightarrow> bool" where
  "not_after r r' =
     (case (r, r') of ((a, l), (a', l')) \<Rightarrow>
        sb_expiry a < sb_expiry a'
        \<or> (sb_expiry a = sb_expiry a'
            \<and> (sb_produced a < sb_produced a'
                \<or> (sb_produced a = sb_produced a' \<and> lg_pack l \<le> lg_pack l'))))"

definition stale_db :: db where
  "stale_db =
     (let t = ex_tables\<lparr>
       batches := [\<lparr>sb_oid = asc ''1001'', sb_id = 1, sb_print_no = asc ''B1'',
                    sb_expiry = Some 20, sb_produced = Some 10\<rparr>],
       ledger := [\<lparr>lg_goods = asc ''1001'', lg_batch = 1, lg_batch_no = asc ''B1'', lg_pack = 10,
                   lg_qty = Some 0, lg_transit = Some (- 1), lg_reserved = Some 0,
                   lg_org = Some 1, lg_kind = Some 0, lg_cost = Some 200\<rparr>]\<rparr>
      in \<lparr>working = (\<lambda>p. t), durable = (\<lambda>p. t), abc_prices = [], trace = []\<rparr>)"

definition fail_commit :: "pystr \<Rightarrow> stmt \<Rightarrow> bool" where
  "fail_commit sn st = (st = CommitTxn)"

definition fail_detail1 :: "pystr \<Rightarrow> stmt \<Rightarrow> bool" where
  "fail_detail1 sn st = (st = InsertDetail 1)"

definition dead_connection :: "pystr \<Rightarrow> stmt \<Rightarrow> bool" where
  "dead_connection sn st = (sn = asc ''SO1'' \<and> (st = InsertSheetRoots \<or> st = RollbackTxn))"

definition second_order :: order where
  "second_order = ex_order\<lparr>order_id := 2, sub_order_sn := asc ''SO2''\<rparr>"

definition skipped_order :: order where
  "skipped_order = ex_order\<lparr>order_goods := [ex_item\<lparr>erp_goods_id := asc ''ERP9999''\<rparr>]\<rparr>"

definition ex_batch :: batch where
  "ex_batch = \<lparr>batch_code = asc ''B2'', batch_times = 2, bz = Some 10, batch_reserved = Some 4,
               assess_price = 0, qty = 46\<rparr>"

definition null_org_db :: db where
  "null_org_db =
     (let t = ex_tables\<lparr>
       batches := [\<lparr>sb_oid = asc ''1001'', sb_id = 2, sb_print_no = asc ''B2'',
                    sb_expiry = Some 10, sb_produced = Some 5\<rparr>],
       ledger := [\<lparr>lg_goods = asc ''1001'', lg_batch = 2, lg_batch_no = asc ''B2'', lg_pack = 10,
                   lg_qty = Some 50, lg_transit = None, lg_reserved = Some 4,
                   lg_org = None, lg_kind = Some 0, lg_cost = Some 100\<rparr>]\<rparr>
      in \<lparr>working = (\<lambda>p. t), durable = (\<lambda>p. t), abc_prices = [], trace = []\<rparr>)"

definition null_counter_db :: db where
  "null_counter_db =
     (let t = ex_tables\<lparr>
       batches := [\<lparr>sb_oid = asc ''1001'', sb_id = 2, sb_print_no = asc ''B2'',
                    sb_expiry = Some 10, sb_produced = Some 5\<rparr>],
       ledger := [\<lparr>lg_goods = asc ''1001'', lg_batch = 2, lg_batch_no = asc ''B2'', lg_pack = 10,
                   lg_qty = Some 50, lg_transit = None, lg_reserved = None,
                   lg_org = Some 1, lg_kind = Some 0, lg_cost = Some 100\<rparr>]\<rparr>
      in \<lparr>working = (\<lambda>p. t), durable = (\<lambda>p. t), abc_prices = [], trace = []\<rparr>)"

text \<open>The table updates of the detail loop; they index the preservation lemma below.\<close>

inductive detail_write :: "(tables \<Rightarrow> tables) \<Rightarrow> bool" where
  add_detail: "detail_write (\<lambda>t. t\<lparr>order_details := order_details t @ [row]\<rparr>)"
| reserve_stock: "detail_write (\<lambda>t. t\<lparr>ledger := map (reserve item b) (ledger t)\<rparr>)"

text \<open>
  The sample database with the order's header already present: once without the
  customer, once with it.
\<close>

definition no_customer_db :: db where
  "no_customer_db =
     (let t = ex_tables\<lparr>customers := [],
       sheet_orders := [\<lparr>so_id = 1, so_no = asc ''SO1'', so_date = asc ''2024-01-01'',
                         so_customer = 7, so_department = 2, so_remark = [], so_note = [],
                         so_total = 6, so_refund_total = 6\<rparr>]\<rparr>
      in \<lparr>working = (\<lambda>p. t), durable = (\<lambda>p. t), abc_prices = [], trace = []\<rparr>)"

definition synced_db :: db where
  "synced_db =
     (let t = ex_tables\<lparr>
       sheet_orders := [\<lparr>so_id = 1, so_no = asc ''SO1'', so_date = asc ''2024-01-01'',
                         so_customer = 7, so_department = 2, so_remark = [], so_note = [],
                         so_total = 6, so_refund_total = 6\<rparr>]\<rparr>
      in \<lparr>working = (\<lambda>p. t), durable = (\<lambda>p. t), abc_prices = [], trace = []\<rparr>)"

section \<open>Namespace resolution\<close>

lemma prefixes_differ: "herbal_prefix \<noteq> standard_prefix"
  by (simp add: herbal_prefix_def standard_prefix_def asc_def)

text \<open>
  C9. The prefix is the herbal one exactly when some split rule has \<open>rule_no\<close> 4 and
  the herbal value, and the standard one otherwise; two orders with the same split rules
  get the same prefix, whatever else they hold.
\<close>

theorem get_database_prefix_spec:
  "(get_database_prefix od = herbal_prefix \<longleftrightarrow>
      (\<exists>r \<in> set (case split_rules od of None \<Rightarrow> [] | Some rs \<Rightarrow> rs).
          rule_no r = Some 4 \<and> rule_value r = Some herbal_value))
   \<and> (get_database_prefix od \<noteq> herbal_prefix \<longrightarrow> get_database_prefix od = standard_prefix)
   \<and> (split_rules od' = split_rules od \<longrightarrow> get_database_prefix od' = get_database_prefix od)"
  using prefixes_differ by (auto simp: get_database_prefix_def list_ex_iff Let_def)

theorem get_database_prefix_spec_witness:
  "get_database_prefix herbal_order = herbal_prefix
   \<and> get_database_prefix ex_order \<noteq> herbal_prefix
   \<and> get_database_prefix ex_order = standard_prefix
   \<and> split_rules (herbal_order\<lparr>source := asc ''app''\<rparr>) = split_rules herbal_order
   \<and> get_database_prefix (herbal_order\<lparr>source := asc ''app''\<rparr>) = get_database_prefix herbal_order"
  using get_database_prefix_spec [of herbal_order "herbal_order\<lparr>source := asc ''app''\<rparr>"]
        get_database_prefix_spec [of ex_order ex_order]
  by (simp add: herbal_order_def ex_order_def)

section \<open>The pull\<close>

text \<open>
  C10. When the pull request raises, or the reply's status is not 1, the fetch yields no
  orders, and the batch returns 0 and leaves the connection as it was.
\<close>

theorem pull_failure_syncs_nothing:
  assumes "pull ev = RequestException \<or> (\<exists>r. pull ev = Json r \<and> reply_status r \<noteq> Some 1)"
  shows "get_orders_from_yq ev = [] \<and> sync_all_orders ev s = (Inr 0, s)"
  using assms by (auto simp: get_orders_from_yq_def sync_all_orders_def send_request_def)

theorem pull_failure_syncs_nothing_witness:
  "get_orders_from_yq (ex_env (\<lambda>_ _. False) RequestException) = []
   \<and> sync_all_orders (ex_env (\<lambda>_ _. False) RequestException) ex_db = (Inr 0, ex_db)
   \<and> get_orders_from_yq (ex_env (\<lambda>_ _. False)
         (Json \<lparr>reply_status = Some 0, reply_data = Some [Order ex_order]\<rparr>)) = []
   \<and> sync_all_orders (ex_env (\<lambda>_ _. False)
         (Json \<lparr>reply_status = Some 0, reply_data = Some [Order ex_order]\<rparr>)) ex_db = (Inr 0, ex_db)"
  using pull_failure_syncs_nothing [of "ex_env (\<lambda>_ _. False) RequestException" ex_db]
        pull_failure_syncs_nothing [of "ex_env (\<lambda>_ _. False)
         (Json \<lparr>reply_status = Some 0, reply_data = Some [Order ex_order]\<rparr>)" ex_db]
  by (simp add: ex_env_def)

section \<open>Remark composition\<close>

lemma str_int_50: "str_int 50 = [0x35, 0x30]"
  by (simp add: str_int_def str_nat.simps)

lemma get_source_table:
  "get_source (asc ''wechat'') = lbl_wechat"
  "get_source (asc ''app'') = lbl_app"
  "get_source (asc ''web'') = lbl_web"
  "get_source (asc ''mini_program'') = lbl_mini_program"
  "src \<notin> {asc ''wechat'', asc ''app'', asc ''web'', asc ''mini_program''} \<Longrightarrow> get_source src = lbl_unknown"
  by (simp_all add: get_source_def sources_def asc_def)

text \<open>
  The customer note of an order paid in cash whose free-text message itself starts with
  the online-paid marker: the note begins with the marker although the payment method
  is not the online one.
\<close>

theorem customer_note_counterexample:
  "\<not> (begins_with online_paid_marker
         (so_note (last (sheet_orders (working (snd (insert_sheet_order
             (ex_env no_faults RequestException) 1 cash_order ex_customer standard_prefix ex_db))
           standard_prefix))))
       \<longleftrightarrow> pay_method cash_order = online_pay)"
  by (simp add: insert_sheet_order_def execute_non_query_def commit_def upd_tables_def ex_env_def
      no_faults_def cash_order_def ex_order_def ex_db_def ex_tables_def header_customer_note_def
      payment_status_def begins_with_def online_paid_marker_def online_pay_def asc_def Let_def)

text \<open>
  C7, amended. The header row that \<open>insert_sheet_order\<close> writes carries the remark
  \<open>label;payment method;discount annotation\<close>, with the label of the source (the
  unknown-source label for any other source) and the annotation only for a positive
  discount total; discount 50, online payment and source wechat give the remark of the
  specification's example. The customer note is the online-paid marker, when the payment
  method is the online one, followed by the order's message; so it begins with the
  marker whenever the payment method is the online one.
\<close>

theorem header_remark_spec:
  assumes "\<not> fails ev (sub_order_sn od) InsertSheetOrder"
  shows "fst (insert_sheet_order ev rid od cust database s) = Inr ()
    \<and> (let hs = sheet_orders (working (snd (insert_sheet_order ev rid od cust database s)) database);
            h = last hs
        in butlast hs = sheet_orders (working s database) \<and> hs \<noteq> []
         \<and> so_id h = rid \<and> so_no h = sub_order_sn od
         \<and> so_remark h =
             (if source od = asc ''wechat'' then lbl_wechat
              else if source od = asc ''app'' then lbl_app
              else if source od = asc ''web'' then lbl_web
              else if source od = asc ''mini_program'' then lbl_mini_program
              else lbl_unknown)
             @ asc '';'' @ pay_method od @ asc '';''
             @ (if order_discount_total od > 0
                then discount_label @ str_int (order_discount_total od) else [])
         \<and> so_note h =
             (if pay_method od = online_pay then online_paid_marker else [])
             @ (case message od of None \<Rightarrow> [] | Some m \<Rightarrow> m)
         \<and> (pay_method od = online_pay \<longrightarrow> begins_with online_paid_marker (so_note h))
         \<and> (order_discount_total od = 50 \<and> pay_method od = online_pay \<and> source od = asc ''wechat''
              \<longrightarrow> so_remark h = [0x5FAE, 0x4FE1, 0x3B, 0x7EBF, 0x4E0A, 0x652F, 0x4ED8, 0x3B,
                                0x8BA2, 0x5355, 0x4F18, 0x60E0, 0x3A, 0x35, 0x30]))"
proof -
  have src: "get_source (source od) =
             (if source od = asc ''wechat'' then lbl_wechat
              else if source od = asc ''app'' then lbl_app
              else if source od = asc ''web'' then lbl_web
              else if source od = asc ''mini_program'' then lbl_mini_program
              else lbl_unknown)"
    using get_source_table(5) [of "source od"] by (auto simp: get_source_table(1-4))
  have ex: "order_discount_total od = 50 \<Longrightarrow> pay_method od = online_pay \<Longrightarrow> source od = asc ''wechat''
      \<Longrightarrow> header_remark od = [0x5FAE, 0x4FE1, 0x3B, 0x7EBF, 0x4E0A, 0x652F, 0x4ED8, 0x3B,
                                0x8BA2, 0x5355, 0x4F18, 0x60E0, 0x3A, 0x35, 0x30]"
    by (simp add: header_remark_def get_source_def sources_def discount_msg_def str_int_50
        lbl_wechat_def online_pay_def discount_label_def asc_def)
  have rem: "header_remark od = 
             (if source od = asc ''wechat'' then lbl_wechat
              else if source od = asc ''app'' then lbl_app
              else if source od = asc ''web'' then lbl_web
              else if source od = asc ''mini_program'' then lbl_mini_program
              else lbl_unknown)
             @ asc '';'' @ pay_method od @ asc '';''
             @ (if order_discount_total od > 0
                then discount_label @ str_int (order_discount_total od) else [])"
    unfolding header_remark_def discount_msg_def src by (rule refl)
  have nt: "header_customer_note od = (if pay_method od = online_pay then online_paid_marker else [])
             @ (case message od of None \<Rightarrow> [] | Some m \<Rightarrow> m)"
    by (simp add: header_customer_note_def payment_status_def)
  have beg: "pay_method od = online_pay \<Longrightarrow> begins_with online_paid_marker (header_customer_note od)"
    by (simp add: nt begins_with_def)
  show ?thesis
    using assms ex rem nt beg
    by (simp add: insert_sheet_order_def execute_non_query_def commit_def upd_tables_def Let_def)
qed

theorem header_remark_spec_witness:
  "\<not> fails (ex_env no_faults RequestException) (sub_order_sn ex_order) InsertSheetOrder
   \<and> order_discount_total ex_order = 50 \<and> pay_method ex_order = online_pay
   \<and> source ex_order = asc ''wechat''
   \<and> fst (insert_sheet_order (ex_env no_faults RequestException) 1 ex_order ex_customer
             standard_prefix ex_db) = Inr ()
   \<and> so_remark (last (sheet_orders (working (snd (insert_sheet_order
         (ex_env no_faults RequestException) 1 ex_order ex_customer standard_prefix ex_db))
         standard_prefix)))
       = [0x5FAE, 0x4FE1, 0x3B, 0x7EBF, 0x4E0A, 0x652F, 0x4ED8, 0x3B,
          0x8BA2, 0x5355, 0x4F18, 0x60E0, 0x3A, 0x35, 0x30]
   \<and> begins_with online_paid_marker (so_note (last (sheet_orders (working (snd (insert_sheet_order
         (ex_env no_faults RequestException) 1 ex_order ex_customer standard_prefix ex_db))
         standard_prefix))))"
proof -
  have h: "\<not> fails (ex_env no_faults RequestException) (sub_order_sn ex_order) InsertSheetOrder"
    by (simp add: ex_env_def no_faults_def)
  have e: "order_discount_total ex_order = 50 \<and> pay_method ex_order = online_pay
   \<and> source ex_order = asc ''wechat''"
    by (simp add: ex_order_def)
  note t = header_remark_spec [OF h, of 1 ex_customer standard_prefix ex_db, unfolded Let_def]
  show ?thesis
    using h e t by blast
qed

section \<open>Profit\<close>

lemma round_1_64: "sql_round2 (1/64) = 1/50" by (simp add: sql_round2_def floor_eq_iff)
lemma round_1_32: "sql_round2 (1/32) = 3/100" by (simp add: sql_round2_def floor_eq_iff)
lemma round_1_25: "sql_round2 (1/25) = 1/25" by (simp add: sql_round2_def floor_eq_iff)

text \<open>
  A line of one unit at price 0.5 against a ledger row of one unit booked at 31/64: the
  profit is 1/64, rounded 0.02. The code's rate is round((1/64) / 0.5, 2) * 100 = 3; the
  rate from the rounded profit would be round(0.02 / 0.5, 2) * 100 = 4.
\<close>

theorem profit_rate_counterexample:
  "fst (get_item_profit rate_item rate_batch standard_prefix rate_db)
     = Inr \<lparr>profit = Some (1 / 50), profit_rate = Some 3\<rparr>
   \<and> sql_round2 ((1 / 50) / (sale_price rate_item * of_int (quantity rate_item))) * 100 = 4"
  by (simp add: get_item_profit_def rate_db_def Let_def rate_item_def rate_batch_def ex_item_def
      ex_db_def ex_tables_def profit_matches_def profit_columns_def sql_div_def strip_marker_def
      asc_def Let_def round_1_64 round_1_32 round_1_25 returning_def execute_query_def)

lemma profit_columns_error: "profit_columns item a = Inl e \<Longrightarrow> e = DbError"
  by (auto simp: profit_columns_def sql_div_def Let_def split: sum.splits option.splits if_splits prod.splits)

lemma fetchall_ok:
  "\<forall>r \<in> set rs. f r \<noteq> Inl DbError \<Longrightarrow> (\<And>r e. f r = Inl e \<Longrightarrow> e = DbError)
   \<Longrightarrow> \<exists>xs. fetchall (map f rs) = Inr xs"
proof (induction rs)
  case Nil
  show ?case by simp
next
  case (Cons r rs)
  then obtain xs where xs: "fetchall (map f rs) = Inr xs" by auto
  from Cons.prems have "f r \<noteq> Inl DbError" by simp
  with Cons.prems(2) obtain v where "f r = Inr v" by (cases "f r") auto
  with xs show ?case by simp
qed

text \<open>
  C4, amended. Without a matching ledger row, profit and profit rate are both 0. With
  matching rows, none of which makes the query fail, and a first row with booked cost
  and a non-zero booked quantity, for a line of non-zero amount: the profit is
  round(price*qty - (cost/bookedQty)*qty, 2), and the profit rate is
  round((price*qty - (cost/bookedQty)*qty) / (price*qty), 2) * 100, from the profit
  before rounding.
\<close>

theorem get_item_profit_spec:
  "(filter (profit_matches item b) (ledger (working s database)) = []
      \<longrightarrow> fst (get_item_profit item b database s) = Inr \<lparr>profit = Some 0, profit_rate = Some 0\<rparr>)
   \<and> (filter (profit_matches item b) (ledger (working s database)) = a # rest
       \<and> lg_cost a = Some cost \<and> lg_qty a = Some n \<and> n \<noteq> 0
       \<and> sale_price item * of_int (quantity item) \<noteq> 0
       \<and> (\<forall>r \<in> set rest. profit_columns item r \<noteq> Inl DbError)
      \<longrightarrow> fst (get_item_profit item b database s) =
            Inr \<lparr>profit = Some (sql_round2 (sale_price item * of_int (quantity item)
                                             - (cost / n) * of_int (quantity item))),
                 profit_rate = Some (sql_round2
                    ((sale_price item * of_int (quantity item)
                       - (cost / n) * of_int (quantity item))
                     / (sale_price item * of_int (quantity item))) * 100)\<rparr>)"
proof (intro conjI impI)
  assume "filter (profit_matches item b) (ledger (working s database)) = []"
  then show "fst (get_item_profit item b database s) = Inr \<lparr>profit = Some 0, profit_rate = Some 0\<rparr>"
    by (simp add: get_item_profit_def returning_def execute_query_def)
next
  assume h: "filter (profit_matches item b) (ledger (working s database)) = a # rest
       \<and> lg_cost a = Some cost \<and> lg_qty a = Some n \<and> n \<noteq> 0
       \<and> sale_price item * of_int (quantity item) \<noteq> 0
       \<and> (\<forall>r \<in> set rest. profit_columns item r \<noteq> Inl DbError)"
  then obtain xs where xs: "fetchall (map (profit_columns item) rest) = Inr xs"
    using fetchall_ok [of rest "profit_columns item"] profit_columns_error by blast
  have pc: "profit_columns item a =
            Inr \<lparr>profit = Some (sql_round2 (sale_price item * of_int (quantity item)
                                             - (cost / n) * of_int (quantity item))),
                 profit_rate = Some (sql_round2
                    ((sale_price item * of_int (quantity item)
                       - (cost / n) * of_int (quantity item))
                     / (sale_price item * of_int (quantity item))) * 100)\<rparr>"
    using h by (simp add: profit_columns_def sql_div_def Let_def)
  show "fst (get_item_profit item b database s) =
            Inr \<lparr>profit = Some (sql_round2 (sale_price item * of_int (quantity item)
                                             - (cost / n) * of_int (quantity item))),
                 profit_rate = Some (sql_round2
                    ((sale_price item * of_int (quantity item)
                       - (cost / n) * of_int (quantity item))
                     / (sale_price item * of_int (quantity item))) * 100)\<rparr>"
    using h xs pc by (simp add: get_item_profit_def returning_def execute_query_def)
qed

lemma rate_rows:
  "filter (profit_matches rate_item rate_batch) (ledger (working rate_db standard_prefix))
     = [\<lparr>lg_goods = asc ''1001'', lg_batch = 1, lg_batch_no = asc ''B1'', lg_pack = 10,
         lg_qty = Some 1, lg_transit = Some 0, lg_reserved = Some 0,
         lg_org = Some 1, lg_kind = Some 0, lg_cost = Some (31 / 64)\<rparr>]"
  "filter (profit_matches rate_item no_ledger_batch) (ledger (working rate_db standard_prefix)) = []"
  by (simp_all add: rate_db_def Let_def rate_item_def rate_batch_def no_ledger_batch_def ex_item_def ex_db_def ex_tables_def
      profit_matches_def strip_marker_def asc_def)

theorem get_item_profit_spec_witness:
  "filter (profit_matches rate_item no_ledger_batch) (ledger (working rate_db standard_prefix)) = []
   \<and> fst (get_item_profit rate_item no_ledger_batch standard_prefix rate_db)
       = Inr \<lparr>profit = Some 0, profit_rate = Some 0\<rparr>
   \<and> filter (profit_matches rate_item rate_batch) (ledger (working rate_db standard_prefix))
       = [\<lparr>lg_goods = asc ''1001'', lg_batch = 1, lg_batch_no = asc ''B1'', lg_pack = 10,
         lg_qty = Some 1, lg_transit = Some 0, lg_reserved = Some 0,
         lg_org = Some 1, lg_kind = Some 0, lg_cost = Some (31 / 64)\<rparr>]
   \<and> fst (get_item_profit rate_item rate_batch standard_prefix rate_db)
       = Inr \<lparr>profit = Some (sql_round2 (1 / 64)), profit_rate = Some (sql_round2 (1 / 32) * 100)\<rparr>"
  using get_item_profit_spec [of rate_item no_ledger_batch rate_db standard_prefix]
        get_item_profit_spec [of rate_item rate_batch rate_db standard_prefix
           "\<lparr>lg_goods = asc ''1001'', lg_batch = 1, lg_batch_no = asc ''B1'', lg_pack = 10,
         lg_qty = Some 1, lg_transit = Some 0, lg_reserved = Some 0,
         lg_org = Some 1, lg_kind = Some 0, lg_cost = Some (31 / 64)\<rparr>" "[]" "31 / 64" 1]
        rate_rows
  by (simp add: rate_item_def ex_item_def)

section \<open>Batch allocation\<close>

text \<open>
  A batch of the ordered product whose ledger row has on-hand quantity 0, in-transit
  quantity -1 and reserved quantity 0: on-hand minus in-transit minus reserved is 1, yet
  the query returns no batch, because a counter that is not positive counts as 0.
\<close>

theorem unreserved_counterexample:
  "fst (get_item_batch ex_item standard_prefix stale_db) = Inr None
   \<and> map (\<lambda>a. (sb_oid a = drop 3 (erp_goods_id ex_item), sb_oid a \<noteq> asc ''-1'', sb_id a))
        (batches (working stale_db standard_prefix)) = [(True, True, 1)]
   \<and> map (\<lambda>l. (lg_goods l = drop 3 (erp_goods_id ex_item), lg_batch l, lg_org l, lg_kind l,
                 isnull (lg_qty l) 0 - isnull (lg_transit l) 0 - isnull (lg_reserved l) 0 > 0))
        (ledger (working stale_db standard_prefix)) = [(True, 1, Some 1, Some 0, True)]"
  by (simp add: get_item_batch_def batch_rows_def returning_def execute_query_def
      eligible_rows_def batch_join_def left_join_def stale_db_def Let_def
      ex_db_def ex_tables_def ex_item_def asc_def batch_where_def isnull_def unreserved_qty_def
      positive_part_def strip_marker_def has_batch_hint_def)

lemma in_left_join:
  "(x, y) \<in> set (left_join xs ys on) \<longleftrightarrow>
     x \<in> set xs \<and> (case y of None \<Rightarrow> (\<forall>y' \<in> set ys. \<not> on x y')
                            | Some y' \<Rightarrow> y' \<in> set ys \<and> on x y')"
proof -
  have one: "(x, y) \<in> set (case filter (on x') ys of [] \<Rightarrow> [(x', None)]
                       | m # ms \<Rightarrow> map (\<lambda>y. (x', Some y)) (m # ms))
      \<longleftrightarrow> x = x' \<and> (case y of None \<Rightarrow> (\<forall>y' \<in> set ys. \<not> on x y')
                            | Some y' \<Rightarrow> y' \<in> set ys \<and> on x y')" for x'
  proof (cases "filter (on x') ys")
    case Nil
    then have "\<forall>y' \<in> set ys. \<not> on x' y'" by (simp add: filter_empty_conv)
    with Nil show ?thesis by (cases y) auto
  next
    case (Cons m ms)
    then have ne: "\<exists>y' \<in> set ys. on x' y'"
      by (metis filter_empty_conv list.distinct(1))
    have "set (m # ms) = {y' \<in> set ys. on x' y'}"
      using Cons by (metis set_filter)
    with Cons ne show ?thesis by (cases y) auto
  qed
  show ?thesis
    unfolding left_join_def by (auto simp: one)
qed

lemma left_join_total: "x \<in> set xs \<Longrightarrow> \<exists>y. (x, y) \<in> set (left_join xs ys on)"
proof (cases "\<exists>y' \<in> set ys. on x y'")
  case True
  assume "x \<in> set xs"
  with True obtain y' where "y' \<in> set ys" "on x y'" by blast
  with \<open>x \<in> set xs\<close> have "(x, Some y') \<in> set (left_join xs ys on)"
    by (simp add: in_left_join)
  then show ?thesis by blast
next
  case False
  assume "x \<in> set xs"
  with False have "(x, None) \<in> set (left_join xs ys on)"
    by (simp add: in_left_join)
  then show ?thesis by blast
qed

lemma sort_key_head:
  assumes "sort_key f xs = r # rs"
  shows "r \<in> set xs \<and> (\<forall>x \<in> set xs. f r \<le> f x)"
proof -
  have s: "set (sort_key f xs) = set xs" by simp
  have "sorted (map f (sort_key f xs))" by (rule sorted_sort_key)
  with assms have "\<forall>x \<in> set rs. f r \<le> f x" by simp
  moreover from s assms have "set xs = insert r (set rs)" by simp
  ultimately show ?thesis by auto
qed

lemma counted_positive_part: "counted v = positive_part v"
  by (cases v) (auto simp: counted_def positive_part_def isnull_def)

lemma in_available:
  "(a, l) \<in> set (available_batches item database s) \<longleftrightarrow>
     a \<in> set (batches (working s database)) \<and> l \<in> set (ledger (working s database))
     \<and> batch_available item a l"
  by (auto simp: available_batches_def)

lemma where_available:
  "sb_oid a = lg_goods l \<and> sb_id a = lg_batch l \<and> lg_kind l = Some 0
     \<and> batch_where item ((a, Some l), c)
   \<longleftrightarrow> batch_available item a l"
  by (cases "lg_org l"; cases "lg_qty l")
     (auto simp: batch_where_def batch_available_def unreserved_qty_def isnull_def
        counted_positive_part strip_marker_def)

lemma eligible_available:
  assumes "((a, b), c) \<in> set (eligible_rows item database s)"
  shows "\<exists>l. b = Some l \<and> (a, l) \<in> set (available_batches item database s)"
proof -
  from assms have j: "((a, b), c) \<in> set (batch_join database s)"
    and w: "batch_where item ((a, b), c)"
    by (simp_all add: eligible_rows_def)
  from w have "unreserved_qty b > 0" by (simp add: batch_where_def)
  then obtain l where l: "b = Some l" by (cases b) (auto simp: unreserved_qty_def)
  from j l have "a \<in> set (batches (working s database))"
    "l \<in> set (ledger (working s database))"
    "sb_oid a = lg_goods l \<and> sb_id a = lg_batch l \<and> lg_kind l = Some 0"
    by (simp_all add: batch_join_def in_left_join)
  with w l show ?thesis
    using where_available [of a l item c] by (auto simp: in_available)
qed

lemma available_eligible:
  assumes "(a, l) \<in> set (available_batches item database s)"
  shows "\<exists>c. ((a, Some l), c) \<in> set (eligible_rows item database s)"
proof -
  from assms have a: "a \<in> set (batches (working s database))"
    and l: "l \<in> set (ledger (working s database))" and v: "batch_available item a l"
    by (simp_all add: in_available)
  from v have on: "sb_oid a = lg_goods l \<and> sb_id a = lg_batch l \<and> lg_kind l = Some 0"
    and w: "batch_where item ((a, Some l), c)" for c
    using where_available [of a l item] by blast+
  from a l on have "(a, Some l) \<in> set (left_join (batches (working s database))
      (ledger (working s database))
      (\<lambda>a b. sb_oid a = lg_goods b \<and> sb_id a = lg_batch b \<and> lg_kind b = Some 0))"
    by (simp add: in_left_join)
  from left_join_total [OF this] obtain c where "((a, Some l), c) \<in> set (batch_join database s)"
    unfolding batch_join_def by blast
  with w show ?thesis by (auto simp: eligible_rows_def)
qed

lemma key_le_not_after:
  "batch_order_key ((a, Some l), c) \<le> batch_order_key ((a', Some l'), c')
     \<longleftrightarrow> not_after (a, l) (a', l')"
  by (auto simp: batch_order_key_def not_after_def less_eq_prod_def)

lemma get_item_batch_result:
  "get_item_batch item database s =
     (Inr (case sort_key batch_order_key (eligible_rows item database s) of
             [] \<Rightarrow> None | r # _ \<Rightarrow> Some (select_columns r)), commit s)"
  by (simp add: get_item_batch_def batch_rows_def returning_def execute_query_def
      split: list.splits)

text \<open>
  C3, amended. The allocator never raises. It finds no batch exactly when no batch of
  the line's product has a ledger row meeting the criterion: on-hand quantity, minus the
  in-transit and the reserved quantity where these are positive, strictly positive (and
  the batch is the hinted one when the line carries a hint). Otherwise it returns the
  columns of such a batch and ledger row, which no other such pair precedes under
  ascending expiry date, then production date, then pack size. A line without a batch
  is passed over: the loop goes on with the next line and writes nothing for this one.
\<close>

theorem get_item_batch_spec:
  "(fst (get_item_batch item database s) = Inr None
      \<longleftrightarrow> available_batches item database s = [])
   \<and> (available_batches item database s \<noteq> []
      \<longrightarrow> (\<exists>b. fst (get_item_batch item database s) = Inr (Some b)))
   \<and> (\<forall>b. fst (get_item_batch item database s) = Inr (Some b) \<longrightarrow>
         (\<exists>(a, l) \<in> set (available_batches item database s).
            batch_code b = sb_print_no a \<and> batch_times b = sb_id a \<and> bz b = Some (lg_pack l)
            \<and> batch_reserved b = lg_reserved l
            \<and> qty b = isnull (lg_qty l) 0 - counted (lg_transit l) - counted (lg_reserved l)
            \<and> (\<forall>r' \<in> set (available_batches item database s). not_after (a, l) r')))
   \<and> (fst (get_item_batch item database s) = Inr None \<longrightarrow>
         details_loop ev sheet_root_id sn database idx (item # items) s
           = details_loop ev sheet_root_id sn database (Suc idx) items (commit s))"
proof -
  let ?el = "eligible_rows item database s"
  let ?av = "available_batches item database s"
  have e_iff: "?el = [] \<longleftrightarrow> ?av = []"
  proof
    assume "?el = []"
    then show "?av = []"
      using available_eligible [of _ _ item database s] by (cases ?av) fastforce+
  next
    assume "?av = []"
    then show "?el = []"
      using eligible_available [of _ _ _ item database s] by (cases ?el) fastforce+
  qed
  have s_iff: "sort_key batch_order_key ?el = [] \<longleftrightarrow> ?el = []"
    by (metis set_sort set_empty)
  have res: "fst (get_item_batch item database s) = Inr None
      \<longleftrightarrow> sort_key batch_order_key ?el = []"
    by (simp add: get_item_batch_result split: list.splits)
  have p1: "fst (get_item_batch item database s) = Inr None \<longleftrightarrow> ?av = []"
    using res e_iff s_iff by blast
  have p2: "\<exists>b. fst (get_item_batch item database s) = Inr (Some b)" if "?av \<noteq> []"
  proof -
    from that e_iff s_iff obtain r rs where "sort_key batch_order_key ?el = r # rs"
      by (cases "sort_key batch_order_key ?el") auto
    then show ?thesis by (simp add: get_item_batch_result)
  qed
  have p3: "\<exists>(a, l) \<in> set ?av.
            batch_code b = sb_print_no a \<and> batch_times b = sb_id a \<and> bz b = Some (lg_pack l)
            \<and> batch_reserved b = lg_reserved l
            \<and> qty b = isnull (lg_qty l) 0 - counted (lg_transit l) - counted (lg_reserved l)
            \<and> (\<forall>r' \<in> set ?av. not_after (a, l) r')"
    if "fst (get_item_batch item database s) = Inr (Some b)" for b
  proof -
    from that obtain r rs where rs: "sort_key batch_order_key ?el = r # rs"
      and b: "b = select_columns r"
      by (auto simp: get_item_batch_result split: list.splits)
    from sort_key_head [OF rs] have r: "r \<in> set ?el"
      and least: "\<forall>r' \<in> set ?el. batch_order_key r \<le> batch_order_key r'"
      by simp_all
    obtain a bl c where rr: "r = ((a, bl), c)" by (metis prod.exhaust)
    from eligible_available [of a bl c item database s] r rr obtain l
      where l: "bl = Some l" and av: "(a, l) \<in> set ?av" by blast
    from av have q: "lg_qty l \<noteq> None"
      by (auto simp: in_available batch_available_def split: option.splits)
    have cols: "batch_code b = sb_print_no a \<and> batch_times b = sb_id a \<and> bz b = Some (lg_pack l)
            \<and> batch_reserved b = lg_reserved l
            \<and> qty b = isnull (lg_qty l) 0 - counted (lg_transit l) - counted (lg_reserved l)"
      using q by (auto simp: b rr l select_columns_def unreserved_qty_def isnull_def
          counted_positive_part)
    have "not_after (a, l) r'" if "r' \<in> set ?av" for r'
    proof -
      obtain a' l' where r': "r' = (a', l')" by (metis prod.exhaust)
      from available_eligible [of a' l' item database s] that r'
      obtain c' where "((a', Some l'), c') \<in> set ?el" by blast
      with least have "batch_order_key r \<le> batch_order_key ((a', Some l'), c')" by blast
      then show ?thesis by (simp add: rr l r' key_le_not_after)
    qed
    with cols av show ?thesis by blast
  qed
  have p4: "details_loop ev sheet_root_id sn database idx (item # items) s
           = details_loop ev sheet_root_id sn database (Suc idx) items (commit s)"
    if "fst (get_item_batch item database s) = Inr None"
    using that by (simp add: get_item_batch_result split: list.splits)
  show ?thesis
    using p1 p2 p3 p4 by blast
qed

lemma ex_batch_value:
  "fst (get_item_batch ex_item standard_prefix ex_db) = Inr (Some ex_batch)"
  by (simp add: get_item_batch_result eligible_rows_def batch_join_def left_join_def
      ex_db_def ex_tables_def ex_item_def ex_batch_def asc_def batch_where_def isnull_def
      unreserved_qty_def positive_part_def strip_marker_def has_batch_hint_def
      batch_order_key_def select_columns_def less_eq_prod_def)

theorem get_item_batch_spec_witness:
  "available_batches ex_item standard_prefix stale_db = []
   \<and> fst (get_item_batch ex_item standard_prefix stale_db) = Inr None
   \<and> available_batches ex_item standard_prefix ex_db \<noteq> []
   \<and> fst (get_item_batch ex_item standard_prefix ex_db) = Inr (Some ex_batch)
   \<and> (\<exists>(a, l) \<in> set (available_batches ex_item standard_prefix ex_db).
         batch_code ex_batch = sb_print_no a \<and> batch_times ex_batch = sb_id a
         \<and> bz ex_batch = Some (lg_pack l) \<and> batch_reserved ex_batch = lg_reserved l
         \<and> qty ex_batch = isnull (lg_qty l) 0 - counted (lg_transit l) - counted (lg_reserved l)
         \<and> (\<forall>r' \<in> set (available_batches ex_item standard_prefix ex_db). not_after (a, l) r'))
   \<and> details_loop (ex_env no_faults RequestException) 1 (asc ''SO1'') standard_prefix 1
        [ex_item, ex_item] stale_db
       = details_loop (ex_env no_faults RequestException) 1 (asc ''SO1'') standard_prefix 2
           [ex_item] (commit stale_db)"
proof -
  have n: "available_batches ex_item standard_prefix stale_db = []"
    by (simp add: available_batches_def batch_available_def stale_db_def Let_def ex_tables_def
        ex_item_def asc_def has_batch_hint_def counted_def)
  have v: "available_batches ex_item standard_prefix ex_db \<noteq> []"
    by (simp add: available_batches_def batch_available_def ex_db_def ex_tables_def
        ex_item_def asc_def has_batch_hint_def counted_def)
  note t1 = get_item_batch_spec [of ex_item standard_prefix ex_db]
  note t2 = get_item_batch_spec [of ex_item standard_prefix stale_db
      "ex_env no_faults RequestException" 1 "asc ''SO1''" 1 "[ex_item]"]
  have two: "Suc 1 = 2" by simp
  show ?thesis
    using ex_batch_value n v t1 t2 unfolding two by blast
qed

section \<open>Runs of the orchestrator on the sample database\<close>

lemmas run_defs = get_item_batch_def batch_rows_def eligible_rows_def batch_join_def left_join_def
      ex_db_def ex_tables_def ex_item_def ex_order_def ex_env_def asc_def batch_where_def
      isnull_def unreserved_qty_def positive_part_def strip_marker_def has_batch_hint_def
      batch_order_key_def select_columns_def less_eq_prod_def returning_def
      sync_order_def sync_order_try_def get_database_prefix_def truthy_def
      get_customer_info_def customer_rows_def order_exists_def order_rows_def
      insert_sheet_roots_def insert_status_flow_def update_sheet_root_status_def
      insert_sheet_order_def insert_order_details_def save_mid_order_def
      order_details_exist_def detail_count_def
      notify_order_sync_success_def commit_def rollback_def execute_query_def
      execute_non_query_def upd_tables_def fresh_id_def get_item_profit_def profit_matches_def
      profit_columns_def sql_div_def get_item_tax_info_def tax_rows_def detail_params_def
      update_stock_concurrency_def reserve_def stock_row_matches_def Let_def

lemma run_fail_detail:
  "(case sync_order (ex_env fail_detail1 RequestException) (Order ex_order) ex_db of
      (r, s) \<Rightarrow> (r, map sr_no (sheet_roots (durable s standard_prefix)),
                  map sf_sheet (status_flows (durable s standard_prefix)),
                  map so_no (sheet_orders (durable s standard_prefix)),
                  order_details (durable s standard_prefix)))
   = (Inr False, [asc ''SO1''], [1], [asc ''SO1''], [])"
  by (simp add: run_defs fail_detail1_def)

lemma run_skipped:
  "(case sync_order (ex_env no_faults RequestException) (Order skipped_order) ex_db of
      (r, s) \<Rightarrow> (r, map sr_no (sheet_roots (durable s standard_prefix)),
                  map sf_sheet (status_flows (durable s standard_prefix)),
                  map so_no (sheet_orders (durable s standard_prefix)),
                  map mo_number (mid_orders (durable s standard_prefix)),
                  order_details (durable s standard_prefix)))
   = (Inr False, [asc ''SO1''], [1], [asc ''SO1''], [asc ''SO1''], [])"
  by (simp add: run_defs no_faults_def skipped_order_def)

lemma run_fail_commit:
  "(case sync_order (ex_env fail_commit RequestException) (Order ex_order) ex_db of
      (r, s) \<Rightarrow> (r, trace s))
   = (Inr False, replicate 18 Commit @ [Notify 1, Rollback])"
  by (simp add: run_defs fail_commit_def eval_nat_numeral)

lemma run_ok:
  "(case sync_order (ex_env no_faults RequestException) (Order ex_order) ex_db of
      (r, s) \<Rightarrow> (r, trace s,
                  map (\<lambda>l. (lg_batch l, lg_reserved l)) (ledger (working s standard_prefix))))
   = (Inr True, replicate 18 Commit @ [Notify 1, Commit], [(1, Some 5), (2, Some 6)])"
  by (simp add: run_defs no_faults_def eval_nat_numeral)

lemma run_null_org:
  "(case sync_order (ex_env no_faults RequestException) (Order ex_order) null_org_db of
      (r, s) \<Rightarrow> (r, map (\<lambda>d. (od_rid d, od_batch d, od_quantity d))
                       (order_details (durable s standard_prefix)),
                  map (\<lambda>l. (lg_batch l, lg_org l, lg_reserved l))
                       (ledger (durable s standard_prefix))))
   = (Inr True, [(1, 2, 2)], [(2, None, Some 4)])"
  by (simp add: run_defs no_faults_def null_org_db_def)

lemma run_null_counter:
  "(case sync_order (ex_env no_faults RequestException) (Order ex_order) null_counter_db of
      (r, s) \<Rightarrow> (r, map (\<lambda>d. (od_rid d, od_batch d, od_quantity d))
                       (order_details (durable s standard_prefix)),
                  map (\<lambda>l. (lg_batch l, lg_org l, lg_reserved l))
                       (ledger (durable s standard_prefix))))
   = (Inr True, [(1, 2, 2)], [(2, Some 1, None)])"
  by (simp add: run_defs no_faults_def null_counter_db_def)

lemma run_dead_connection:
  "(case sync_all_orders (ex_env dead_connection
       (Json \<lparr>reply_status = Some 1, reply_data = Some [Order ex_order, Order second_order]\<rparr>))
       ex_db of
      (r, s) \<Rightarrow> (r, trace s, sheet_roots (working s standard_prefix)))
   = (Inl DbError, [Commit, Commit], [])"
  by (simp add: run_defs dead_connection_def sync_all_orders_def get_orders_from_yq_def
      send_request_def second_order_def)

lemma run_no_order_number:
  "(case sync_all_orders (ex_env no_faults
       (Json \<lparr>reply_status = Some 1, reply_data = Some [NoOrderNumber, Order ex_order]\<rparr>))
       ex_db of
      (r, s) \<Rightarrow> (r, trace s, sheet_roots (working s standard_prefix)))
   = (Inl KeyError, [Rollback], [])"
  by (simp add: sync_all_orders_def get_orders_from_yq_def send_request_def sync_order_def
      ex_env_def rollback_def ex_db_def ex_tables_def)

text \<open>
  C1, on the code. Two failing syncs of an order on a database without any row for it.
  In the first the insert of the only line is refused; in the second the only line has
  no eligible batch, so that the verifier raises. Both return \<open>False\<close> after the
  rollback, and the committed tables hold the order's document root, workflow status
  and header (and, in the second, its bookkeeping record): every statement has been
  committed as soon as it had run.
\<close>

theorem failed_sync_rows_persist:
  "sheet_roots (durable ex_db standard_prefix) = []
   \<and> fst (sync_order (ex_env fail_detail1 RequestException) (Order ex_order) ex_db) = Inr False
   \<and> map sr_no (sheet_roots (durable (snd (sync_order (ex_env fail_detail1 RequestException)
         (Order ex_order) ex_db)) standard_prefix)) = [sub_order_sn ex_order]
   \<and> map sf_sheet (status_flows (durable (snd (sync_order (ex_env fail_detail1 RequestException)
         (Order ex_order) ex_db)) standard_prefix)) = [1]
   \<and> map so_no (sheet_orders (durable (snd (sync_order (ex_env fail_detail1 RequestException)
         (Order ex_order) ex_db)) standard_prefix)) = [sub_order_sn ex_order]
   \<and> fst (sync_order (ex_env no_faults RequestException) (Order skipped_order) ex_db)
       = Inr False
   \<and> map sr_no (sheet_roots (durable (snd (sync_order (ex_env no_faults RequestException)
         (Order skipped_order) ex_db)) standard_prefix)) = [sub_order_sn skipped_order]
   \<and> map so_no (sheet_orders (durable (snd (sync_order (ex_env no_faults RequestException)
         (Order skipped_order) ex_db)) standard_prefix)) = [sub_order_sn skipped_order]
   \<and> map mo_number (mid_orders (durable (snd (sync_order (ex_env no_faults RequestException)
         (Order skipped_order) ex_db)) standard_prefix)) = [sub_order_sn skipped_order]
   \<and> order_details (durable (snd (sync_order (ex_env no_faults RequestException)
         (Order skipped_order) ex_db)) standard_prefix) = []"
proof -
  have e: "sheet_roots (durable ex_db standard_prefix) = []"
    "sub_order_sn ex_order = asc ''SO1''" "sub_order_sn skipped_order = asc ''SO1''"
    by (simp_all add: ex_db_def ex_tables_def ex_order_def skipped_order_def)
  show ?thesis
    using run_fail_detail run_skipped by (simp add: split_beta e)
qed

text \<open>
  C2, on the code. When the commit of the transaction is refused, the sync returns
  \<open>False\<close> and the notify endpoint has been called for the order; in a sync that
  succeeds the call comes before the commit of the transaction.
\<close>

theorem notify_precedes_commit:
  "fst (sync_order (ex_env fail_commit RequestException) (Order ex_order) ex_db) = Inr False
   \<and> trace (snd (sync_order (ex_env fail_commit RequestException) (Order ex_order) ex_db))
       = replicate 18 Commit @ [Notify (order_id ex_order), Rollback]
   \<and> fst (sync_order (ex_env no_faults RequestException) (Order ex_order) ex_db) = Inr True
   \<and> trace (snd (sync_order (ex_env no_faults RequestException) (Order ex_order) ex_db))
       = replicate 18 Commit @ [Notify (order_id ex_order), Commit]"
proof -
  have e: "order_id ex_order = 1" by (simp add: ex_order_def)
  show ?thesis
    using run_fail_commit run_ok by (simp add: split_beta e)
qed

text \<open>
  C6, on the code. The sample order on a database whose only ledger row for the batch
  has no organisation, and on one where that row has no reservation counter: the batch
  query accepts the row in both, the sync succeeds and writes the detail line of
  quantity 2 for batch 2, and the reservation counter is afterwards what it was, 4 in
  the first and NULL in the second. On the sample database, where the row has
  organisation 1 and counter 4, the same sync leaves the counter at 6.
\<close>

theorem allocation_without_reservation:
  "map (\<lambda>l. (lg_batch l, lg_org l, lg_reserved l)) (ledger (durable null_org_db standard_prefix))
     = [(2, None, Some 4)]
   \<and> fst (sync_order (ex_env no_faults RequestException) (Order ex_order) null_org_db) = Inr True
   \<and> map (\<lambda>d. (od_rid d, od_batch d, od_quantity d))
        (order_details (durable (snd (sync_order (ex_env no_faults RequestException)
           (Order ex_order) null_org_db)) standard_prefix)) = [(1, 2, 2)]
   \<and> map (\<lambda>l. (lg_batch l, lg_org l, lg_reserved l))
        (ledger (durable (snd (sync_order (ex_env no_faults RequestException)
           (Order ex_order) null_org_db)) standard_prefix)) = [(2, None, Some 4)]
   \<and> map (\<lambda>l. (lg_batch l, lg_org l, lg_reserved l))
        (ledger (durable null_counter_db standard_prefix)) = [(2, Some 1, None)]
   \<and> fst (sync_order (ex_env no_faults RequestException) (Order ex_order) null_counter_db)
       = Inr True
   \<and> map (\<lambda>d. (od_rid d, od_batch d, od_quantity d))
        (order_details (durable (snd (sync_order (ex_env no_faults RequestException)
           (Order ex_order) null_counter_db)) standard_prefix)) = [(1, 2, 2)]
   \<and> map (\<lambda>l. (lg_batch l, lg_org l, lg_reserved l))
        (ledger (durable (snd (sync_order (ex_env no_faults RequestException)
           (Order ex_order) null_counter_db)) standard_prefix)) = [(2, Some 1, None)]
   \<and> map (\<lambda>l. (lg_batch l, lg_reserved l)) (ledger (working ex_db standard_prefix))
       = [(1, Some 5), (2, Some 4)]
   \<and> map (\<lambda>l. (lg_batch l, lg_reserved l))
        (ledger (working (snd (sync_order (ex_env no_faults RequestException) (Order ex_order)
           ex_db)) standard_prefix)) = [(1, Some 5), (2, Some 6)]"
proof -
  have e: "map (\<lambda>l. (lg_batch l, lg_org l, lg_reserved l))
             (ledger (durable null_org_db standard_prefix)) = [(2, None, Some 4)]"
    "map (\<lambda>l. (lg_batch l, lg_org l, lg_reserved l))
        (ledger (durable null_counter_db standard_prefix)) = [(2, Some 1, None)]"
    "map (\<lambda>l. (lg_batch l, lg_reserved l)) (ledger (working ex_db standard_prefix))
       = [(1, Some 5), (2, Some 4)]"
    by (simp_all add: null_org_db_def null_counter_db_def Let_def ex_db_def ex_tables_def)
  show ?thesis
    using run_null_org run_null_counter run_ok by (simp add: split_beta e)
qed

text \<open>
  As long as no exception leaves \<open>sync_order\<close>, the loop counts the successful syncs.
\<close>

lemma sync_loop_counts:
  assumes "\<forall>r \<in> set (sync_run ev orders s). \<exists>ok. fst r = Inr ok"
  shows "fst (sync_loop ev orders n s)
           = Inr (n + length (filter (\<lambda>r. fst r = Inr True) (sync_run ev orders s)))"
  using assms
proof (induction orders arbitrary: n s)
  case Nil
  show ?case by simp
next
  case (Cons od orders)
  from Cons.prems obtain ok where ok: "fst (sync_order ev od s) = Inr ok" by auto
  then obtain s' where r: "sync_order ev od s = (Inr ok, s')" by (cases "sync_order ev od s") auto
  from Cons.prems r have "\<forall>r \<in> set (sync_run ev orders s'). \<exists>ok. fst r = Inr ok" by simp
  from Cons.IH [OF this] r show ?case by (cases ok) simp_all
qed

text \<open>
  C8, on the code. A batch of two orders in which the insert of the first order's
  document root is refused and then the rollback of the handler is refused too: the
  exception leaves \<open>sync_order\<close> and \<open>sync_all_orders\<close>, which returns no count, and
  the second order is never synced. The same happens when the first object of the
  batch has no \<open>sub_order_sn\<close>: the handler's own log line raises.
\<close>

theorem failure_aborts_batch:
  "get_orders_from_yq (ex_env dead_connection
       (Json \<lparr>reply_status = Some 1, reply_data = Some [Order ex_order, Order second_order]\<rparr>))
     = [Order ex_order, Order second_order]
   \<and> fst (sync_all_orders (ex_env dead_connection
       (Json \<lparr>reply_status = Some 1, reply_data = Some [Order ex_order, Order second_order]\<rparr>))
       ex_db) = Inl DbError
   \<and> trace (snd (sync_all_orders (ex_env dead_connection
       (Json \<lparr>reply_status = Some 1, reply_data = Some [Order ex_order, Order second_order]\<rparr>))
       ex_db)) = [Commit, Commit]
   \<and> sheet_roots (working (snd (sync_all_orders (ex_env dead_connection
       (Json \<lparr>reply_status = Some 1, reply_data = Some [Order ex_order, Order second_order]\<rparr>))
       ex_db)) standard_prefix) = []
   \<and> fst (sync_all_orders (ex_env no_faults
       (Json \<lparr>reply_status = Some 1, reply_data = Some [NoOrderNumber, Order ex_order]\<rparr>))
       ex_db) = Inl KeyError
   \<and> trace (snd (sync_all_orders (ex_env no_faults
       (Json \<lparr>reply_status = Some 1, reply_data = Some [NoOrderNumber, Order ex_order]\<rparr>))
       ex_db)) = [Rollback]
   \<and> sheet_roots (working (snd (sync_all_orders (ex_env no_faults
       (Json \<lparr>reply_status = Some 1, reply_data = Some [NoOrderNumber, Order ex_order]\<rparr>))
       ex_db)) standard_prefix) = []
   \<and> fst (sync_order (ex_env no_faults RequestException) (Order ex_order) ex_db) = Inr True"
proof -
  have e: "get_orders_from_yq (ex_env dead_connection
       (Json \<lparr>reply_status = Some 1, reply_data = Some [Order ex_order, Order second_order]\<rparr>))
     = [Order ex_order, Order second_order]"
    by (simp add: get_orders_from_yq_def send_request_def ex_env_def)
  show ?thesis
    using run_dead_connection run_no_order_number run_ok by (simp add: split_beta e)
qed

section \<open>Idempotence\<close>

lemma get_customer_info_result:
  "get_customer_info od p s =
     (Inr (case customer_rows od p s of [] \<Rightarrow> None | a # _ \<Rightarrow> Some a), commit s)"
  by (simp add: get_customer_info_def returning_def execute_query_def)

lemma order_exists_result:
  "order_exists od p s = (Inr (order_rows od p s \<noteq> []), commit s)"
  by (simp add: order_exists_def returning_def execute_query_def)

lemma order_details_exist_result:
  "\<exists>v. order_details_exist rid p s = (Inr v, commit s)"
  by (simp add: order_details_exist_def returning_def execute_query_def)

lemma get_item_batch_state: "\<exists>v. get_item_batch item p s = (Inr v, commit s)"
  by (simp add: get_item_batch_def returning_def execute_query_def)

lemma get_item_tax_info_state: "\<exists>v. get_item_tax_info item p s = (Inr v, commit s)"
  by (simp add: get_item_tax_info_def returning_def execute_query_def)

lemma get_item_profit_state:
  "(\<exists>e. get_item_profit item b p s = (Inl e, s)) \<or> (\<exists>v. get_item_profit item b p s = (Inr v, commit s))"
  by (simp add: get_item_profit_def returning_def execute_query_def split: sum.splits)

lemma reads_after_commit:
  "customer_rows od p (commit s) = customer_rows od p s"
  "order_rows od p (commit s) = order_rows od p s"
  by (simp_all add: customer_rows_def order_rows_def commit_def)

lemma details_loop_pres:
  assumes w: "\<And>s f. Q s \<Longrightarrow> detail_write f \<Longrightarrow> Q (upd_tables database f s)"
    and c: "\<And>s. Q s \<Longrightarrow> Q (commit s)"
  shows "Q s \<Longrightarrow> Q (snd (details_loop ev rid sn database idx items s))"
proof (induction items arbitrary: idx s)
  case Nil
  then show ?case by simp
next
  case (Cons item items)
  from get_item_batch_state obtain v where v: "get_item_batch item database s = (Inr v, commit s)"
    by blast
  have q0: "Q (commit s)" by (rule c) (rule Cons.prems)
  show ?case
  proof (cases v)
    case None
    with v Cons.IH [OF q0] show ?thesis by simp
  next
    case (Some b)
    let ?s1 = "commit s"
    from get_item_tax_info_state obtain tx
      where tx: "get_item_tax_info item database ?s1 = (Inr tx, commit ?s1)" by blast
    let ?s2 = "commit ?s1"
    have q2: "Q ?s2" by (rule c) (rule q0)
    from get_item_profit_state [of item b database ?s2] show ?thesis
    proof
      assume "\<exists>e. get_item_profit item b database ?s2 = (Inl e, ?s2)"
      then show ?thesis using v Some tx q2 by auto
    next
      assume "\<exists>pi. get_item_profit item b database ?s2 = (Inr pi, commit ?s2)"
      then obtain pinfo where pf: "get_item_profit item b database ?s2 = (Inr pinfo, commit ?s2)"
        by blast
      let ?s3 = "commit ?s2"
      have q3: "Q ?s3" by (rule c) (rule q2)
      show ?thesis
      proof (cases "detail_params rid idx item b tx pinfo")
        case (Inl e)
        with v Some tx pf q3 show ?thesis by simp
      next
        case row: (Inr row)
        let ?s4 = "commit (commit (upd_tables database
                     (\<lambda>t. t\<lparr>order_details := order_details t @ [row]\<rparr>) ?s3))"
        let ?s5 = "commit (commit (upd_tables database
                     (\<lambda>t. t\<lparr>ledger := map (reserve item b) (ledger t)\<rparr>) ?s4))"
        have q4: "Q ?s4"
          by (rule c, rule c, rule w, rule q3, rule detail_write.add_detail)
        have q5: "Q ?s5"
          by (rule c, rule c, rule w, rule q4, rule detail_write.reserve_stock)
        from Cons.IH [OF q5]
        have q6: "Q (snd (details_loop ev rid sn database (Suc idx) items ?s5))" .
        show ?thesis
          using v Some tx pf row q3 q4 q6
          by (simp add: execute_non_query_def update_stock_concurrency_def)
      qed
    qed
  qed
qed

lemma sync_order_try_success:
  assumes "sync_order_try ev od s = (Inr True, s')"
  shows "truthy (erp_customer_id od) \<and>
    (\<exists>cust. fst (get_customer_info od (get_database_prefix od) s) = Inr (Some cust) \<and>
      (order_rows od (get_database_prefix od) s \<noteq> [] \<and> s' = commit (commit s)
       \<or> order_rows od (get_database_prefix od) s = [] \<and>
         (\<exists>rid s1 fid s2 s3 s4 s5 s6 s7.
            insert_sheet_roots ev od cust (get_database_prefix od) (commit (commit s))
              = (Inr rid, s1)
          \<and> insert_status_flow ev od rid (get_database_prefix od) s1 = (Inr fid, s2)
          \<and> update_sheet_root_status (fails ev (sub_order_sn od) UpdateSheetRoot) rid fid
                (get_database_prefix od) s2 = (Inr (), s3)
          \<and> insert_sheet_order ev rid od cust (get_database_prefix od) s3 = (Inr (), s4)
          \<and> insert_order_details ev rid od (get_database_prefix od) s4 = (Inr (), s5)
          \<and> save_mid_order ev od (get_database_prefix od) s5 = (Inr (), s6)
          \<and> s7 = commit s6
          \<and> s' = commit (notify_order_sync_success od s7))))"
proof -
  obtain v where v: "order_details_exist rid p s6 = (Inr (v rid p s6), commit s6)" for rid p s6
    using order_details_exist_result by metis
  show ?thesis
    using assms
    by (auto simp: sync_order_try_def Let_def get_customer_info_result order_exists_result
        reads_after_commit v
        split: if_splits option.splits prod.splits sum.splits list.splits bool.splits)
qed

lemma sync_order_success:
  assumes "fst (sync_order ev (Order od) s) = Inr True"
  shows "sync_order_try ev od s = (Inr True, snd (sync_order ev (Order od) s))"
  using assms by (auto simp: sync_order_def split: prod.splits sum.splits if_splits)

lemma roots_view:
  assumes "insert_sheet_roots ev od cust p s = (Inr rid, s1)"
  shows "sheet_orders (working s1 p) = sheet_orders (working s p)"
    and "map sr_no (sheet_roots (working s1 p))
           = map sr_no (sheet_roots (working s p)) @ [sub_order_sn od]"
    and "customers (working s1 p) = customers (working s p)"
  using assms
  by (auto simp: insert_sheet_roots_def execute_query_def upd_tables_def commit_def Let_def
      split: if_splits)

lemma flow_view:
  assumes "insert_status_flow ev od rid p s = (Inr fid, s1)"
  shows "sheet_orders (working s1 p) = sheet_orders (working s p)"
    and "sheet_roots (working s1 p) = sheet_roots (working s p)"
    and "customers (working s1 p) = customers (working s p)"
  using assms
  by (auto simp: insert_status_flow_def execute_query_def upd_tables_def commit_def Let_def
      split: if_splits)

lemma link_view:
  assumes "update_sheet_root_status x rid fid p s = (Inr u, s1)"
  shows "sheet_orders (working s1 p) = sheet_orders (working s p)"
    and "map sr_no (sheet_roots (working s1 p)) = map sr_no (sheet_roots (working s p))"
    and "customers (working s1 p) = customers (working s p)"
  using assms
  by (auto simp: update_sheet_root_status_def execute_non_query_def upd_tables_def commit_def
      split: if_splits)

lemma header_view:
  assumes "insert_sheet_order ev rid od cust p s = (Inr u, s1)"
  shows "\<exists>row. sheet_orders (working s1 p) = sheet_orders (working s p) @ [row]
               \<and> so_no row = sub_order_sn od"
    and "sheet_roots (working s1 p) = sheet_roots (working s p)"
    and "customers (working s1 p) = customers (working s p)"
  using assms
  by (auto simp: insert_sheet_order_def execute_non_query_def upd_tables_def commit_def Let_def
      split: if_splits)

lemma details_view:
  "sheet_orders (working (snd (insert_order_details ev rid od p s)) p) = sheet_orders (working s p)
   \<and> sheet_roots (working (snd (insert_order_details ev rid od p s)) p) = sheet_roots (working s p)
   \<and> customers (working (snd (insert_order_details ev rid od p s)) p) = customers (working s p)"
proof -
  define Q where "Q = (\<lambda>s' :: db. sheet_orders (working s' p) = sheet_orders (working s p)
     \<and> sheet_roots (working s' p) = sheet_roots (working s p)
     \<and> customers (working s' p) = customers (working s p))"
  have "Q (snd (details_loop ev rid (sub_order_sn od) p 1 (order_goods od) s))"
  proof (rule details_loop_pres)
    show "Q s" by (simp add: Q_def)
  next
    fix s' f assume "Q s'" "detail_write f"
    then show "Q (upd_tables p f s')"
      by (auto simp: Q_def upd_tables_def elim!: detail_write.cases)
  qed (simp add: Q_def commit_def)
  then show ?thesis by (simp add: Q_def insert_order_details_def)
qed

lemma mid_view:
  assumes "save_mid_order ev od p s = (Inr u, s1)"
  shows "sheet_orders (working s1 p) = sheet_orders (working s p)"
    and "sheet_roots (working s1 p) = sheet_roots (working s p)"
    and "customers (working s1 p) = customers (working s p)"
  using assms
  by (auto simp: save_mid_order_def execute_non_query_def upd_tables_def commit_def Let_def
      split: if_splits)

lemma success_view:
  assumes t: "sync_order_try ev od s = (Inr True, s')"
    and n: "order_rows od (get_database_prefix od) s = []"
  shows "\<exists>row. sheet_orders (working s' (get_database_prefix od))
                 = sheet_orders (working s (get_database_prefix od)) @ [row]
               \<and> so_no row = sub_order_sn od"
    and "map sr_no (sheet_roots (working s' (get_database_prefix od)))
           = map sr_no (sheet_roots (working s (get_database_prefix od))) @ [sub_order_sn od]"
    and "customers (working s' (get_database_prefix od))
           = customers (working s (get_database_prefix od))"
    and "durable s' = working s'"
proof -
  let ?p = "get_database_prefix od"
  from sync_order_try_success [OF t] n obtain cust rid s1 fid s2 s3 s4 s5 s6 where
      a1: "insert_sheet_roots ev od cust ?p (commit (commit s)) = (Inr rid, s1)"
    and a2: "insert_status_flow ev od rid ?p s1 = (Inr fid, s2)"
    and a3: "update_sheet_root_status (fails ev (sub_order_sn od) UpdateSheetRoot) rid fid ?p s2
               = (Inr (), s3)"
    and a4: "insert_sheet_order ev rid od cust ?p s3 = (Inr (), s4)"
    and a5: "insert_order_details ev rid od ?p s4 = (Inr (), s5)"
    and a6: "save_mid_order ev od ?p s5 = (Inr (), s6)"
    and a7: "s' = commit (notify_order_sync_success od (commit s6))"
    by blast
  have w: "working s' = working s6"
    by (simp add: a7 commit_def notify_order_sync_success_def)
  have w0: "working (commit (commit s)) = working s" by (simp add: commit_def)
  from a5 have s5: "s5 = snd (insert_order_details ev rid od ?p s4)" by simp
  note d = details_view [of ev rid od ?p s4, folded s5]
  from header_view(1) [OF a4] obtain row
    where row: "sheet_orders (working s4 ?p) = sheet_orders (working s3 ?p) @ [row]"
               "so_no row = sub_order_sn od" by blast
  have "sheet_orders (working s' ?p) = sheet_orders (working s ?p) @ [row]"
    using w w0 mid_view(1) [OF a6] d row(1) link_view(1) [OF a3] flow_view(1) [OF a2]
      roots_view(1) [OF a1] by simp
  with row(2) show "\<exists>row. sheet_orders (working s' ?p) = sheet_orders (working s ?p) @ [row]
               \<and> so_no row = sub_order_sn od" by blast
  show "map sr_no (sheet_roots (working s' ?p))
           = map sr_no (sheet_roots (working s ?p)) @ [sub_order_sn od]"
    using w w0 mid_view(2) [OF a6] d header_view(2) [OF a4] link_view(2) [OF a3]
      flow_view(2) [OF a2] roots_view(2) [OF a1] by simp
  show "customers (working s' ?p) = customers (working s ?p)"
    using w w0 mid_view(3) [OF a6] d header_view(3) [OF a4] link_view(3) [OF a3]
      flow_view(3) [OF a2] roots_view(3) [OF a1] by simp
  show "durable s' = working s'"
    by (simp add: a7 commit_def)
qed

lemma duplicate_is_noop:
  assumes "truthy (erp_customer_id od)"
    and "fst (get_customer_info od (get_database_prefix od) s) = Inr (Some cust)"
    and "fst (order_exists od (get_database_prefix od) s) = Inr True"
  shows "sync_order ev (Order od) s = (Inr True, commit (commit s))"
  using assms
  by (auto simp: sync_order_def sync_order_try_def Let_def get_customer_info_result
      order_exists_result reads_after_commit split: list.splits)

lemma second_sync_noop:
  assumes "fst (sync_order ev (Order od) s) = Inr True"
  shows "sync_order ev' (Order od) (snd (sync_order ev (Order od) s))
           = (Inr True, commit (commit (snd (sync_order ev (Order od) s))))"
proof -
  let ?p = "get_database_prefix od"
  let ?s' = "snd (sync_order ev (Order od) s)"
  note t = sync_order_success [OF assms]
  from sync_order_try_success [OF t] obtain cust where
    tr: "truthy (erp_customer_id od)"
    and cu: "fst (get_customer_info od ?p s) = Inr (Some cust)"
    and dn: "order_rows od ?p s \<noteq> [] \<and> ?s' = commit (commit s) \<or> order_rows od ?p s = []"
    by blast
  have cust_same: "fst (get_customer_info od ?p ?s') = Inr (Some cust)"
    if "customers (working ?s' ?p) = customers (working s ?p)"
    using cu that by (simp add: get_customer_info_result customer_rows_def)
  show ?thesis
  proof (cases "order_rows od ?p s = []")
    case False
    with dn have st: "?s' = commit (commit s)" by blast
    then have c: "customers (working ?s' ?p) = customers (working s ?p)"
      by (simp add: commit_def)
    from False st have "fst (order_exists od ?p ?s') = Inr True"
      by (simp add: order_exists_result reads_after_commit)
    with tr cust_same [OF c] show ?thesis by (rule duplicate_is_noop)
  next
    case True
    from success_view(1) [OF t True] have "fst (order_exists od ?p ?s') = Inr True"
      by (auto simp: order_exists_result order_rows_def)
    with tr cust_same [OF success_view(3) [OF t True]] show ?thesis
      by (rule duplicate_is_noop)
  qed
qed

lemma first_sync_counts:
  assumes "fst (sync_order ev (Order od) s) = Inr True"
    and n: "fst (order_exists od (get_database_prefix od) s) = Inr False"
  shows "length (filter (\<lambda>h. so_no h = sub_order_sn od)
            (sheet_orders (working (snd (sync_order ev (Order od) s)) (get_database_prefix od)))) = 1"
    and "length (filter (\<lambda>r. sr_no r = sub_order_sn od)
            (sheet_roots (working (snd (sync_order ev (Order od) s)) (get_database_prefix od))))
         = Suc (length (filter (\<lambda>r. sr_no r = sub_order_sn od)
            (sheet_roots (working s (get_database_prefix od)))))"
proof -
  let ?p = "get_database_prefix od"
  let ?s' = "snd (sync_order ev (Order od) s)"
  note t = sync_order_success [OF assms(1)]
  from n have e: "order_rows od ?p s = []"
    by (simp add: order_exists_result)
  then have e': "filter (\<lambda>h. so_no h = sub_order_sn od) (sheet_orders (working s ?p)) = []"
    by (simp add: order_rows_def)
  from success_view(1) [OF t e] e'
  show "length (filter (\<lambda>h. so_no h = sub_order_sn od) (sheet_orders (working ?s' ?p))) = 1"
    by auto
  have c: "length (filter (\<lambda>r. sr_no r = sub_order_sn od) rs)
           = length (filter (\<lambda>x. x = sub_order_sn od) (map sr_no rs))" for rs :: "sheet_root list"
    by (induction rs) simp_all
  show "length (filter (\<lambda>r. sr_no r = sub_order_sn od) (sheet_roots (working ?s' ?p)))
         = Suc (length (filter (\<lambda>r. sr_no r = sub_order_sn od) (sheet_roots (working s ?p))))"
    unfolding c success_view(2) [OF t e] by simp
qed

lemma commit_twice:
  "working (commit (commit s)) = working s"
  "durable (commit (commit s)) = working s"
  "trace (commit (commit s)) = trace s @ [Commit, Commit]"
  "abc_prices (commit (commit s)) = abc_prices s"
  by (simp_all add: commit_def)

text \<open>
  C5, amended. An order with a customer identifier, whose customer is found and whose
  number is already in the header table, syncs successfully without any statement that
  writes: the connection is left as the two lookups leave it, its tables unchanged and
  nothing pending. Hence after a successful sync of an order a second sync of it, in any
  environment, succeeds and writes nothing; and a successful first sync of an order that
  had no header leaves exactly one header with its number and one more document root
  with its number.
\<close>

theorem duplicate_sync_spec:
  "(truthy (erp_customer_id od)
      \<and> fst (get_customer_info od (get_database_prefix od) s) = Inr (Some cust)
      \<and> fst (order_exists od (get_database_prefix od) s) = Inr True
     \<longrightarrow> sync_order ev (Order od) s = (Inr True, commit (commit s)))
   \<and> working (commit (commit s)) = working s
   \<and> durable (commit (commit s)) = working s
   \<and> trace (commit (commit s)) = trace s @ [Commit, Commit]
   \<and> (fst (sync_order ev (Order od) s) = Inr True
     \<longrightarrow> sync_order ev' (Order od) (snd (sync_order ev (Order od) s))
           = (Inr True, commit (commit (snd (sync_order ev (Order od) s))))
         \<and> working (commit (commit (snd (sync_order ev (Order od) s))))
             = working (snd (sync_order ev (Order od) s)))
   \<and> (fst (sync_order ev (Order od) s) = Inr True
       \<and> fst (order_exists od (get_database_prefix od) s) = Inr False
     \<longrightarrow> length (filter (\<lambda>h. so_no h = sub_order_sn od)
            (sheet_orders (working (snd (sync_order ev (Order od) s)) (get_database_prefix od)))) = 1
       \<and> length (filter (\<lambda>r. sr_no r = sub_order_sn od)
            (sheet_roots (working (snd (sync_order ev (Order od) s)) (get_database_prefix od))))
         = Suc (length (filter (\<lambda>r. sr_no r = sub_order_sn od)
            (sheet_roots (working s (get_database_prefix od))))))"
  using duplicate_is_noop second_sync_noop first_sync_counts commit_twice(1-3) by blast

text \<open>
  An order whose number is already in the header table and whose customer number is not
  found: the sync fails, because the customer lookup comes before the existence check.
\<close>

theorem missing_customer_counterexample:
  "fst (order_exists ex_order (get_database_prefix ex_order) no_customer_db) = Inr True
   \<and> fst (sync_order (ex_env no_faults RequestException) (Order ex_order) no_customer_db)
       = Inr False"
  by (simp add: order_exists_result order_rows_def get_database_prefix_def no_customer_db_def
      Let_def ex_db_def ex_tables_def ex_order_def asc_def sync_order_def sync_order_try_def
      truthy_def get_customer_info_result customer_rows_def)

theorem duplicate_sync_spec_witness:
  "truthy (erp_customer_id ex_order)
   \<and> fst (get_customer_info ex_order (get_database_prefix ex_order) synced_db)
       = Inr (Some ex_customer)
   \<and> fst (order_exists ex_order (get_database_prefix ex_order) synced_db) = Inr True
   \<and> sync_order (ex_env no_faults RequestException) (Order ex_order) synced_db
       = (Inr True, commit (commit synced_db))
   \<and> fst (sync_order (ex_env no_faults RequestException) (Order ex_order) ex_db) = Inr True
   \<and> sync_order (ex_env fail_commit RequestException) (Order ex_order)
        (snd (sync_order (ex_env no_faults RequestException) (Order ex_order) ex_db))
       = (Inr True,
          commit (commit (snd (sync_order (ex_env no_faults RequestException) (Order ex_order)
            ex_db))))
   \<and> fst (order_exists ex_order (get_database_prefix ex_order) ex_db) = Inr False
   \<and> length (filter (\<lambda>h. so_no h = sub_order_sn ex_order)
        (sheet_orders (working (snd (sync_order (ex_env no_faults RequestException)
           (Order ex_order) ex_db)) (get_database_prefix ex_order)))) = 1"
proof -
  have h1: "truthy (erp_customer_id ex_order)" by (simp add: truthy_def ex_order_def asc_def)
  have h2: "fst (get_customer_info ex_order (get_database_prefix ex_order) synced_db)
              = Inr (Some ex_customer)"
    by (simp add: get_customer_info_result customer_rows_def synced_db_def Let_def ex_tables_def
        ex_order_def ex_customer_def asc_def)
  have h3: "fst (order_exists ex_order (get_database_prefix ex_order) synced_db) = Inr True"
    by (simp add: order_exists_result order_rows_def synced_db_def Let_def ex_tables_def
        ex_order_def asc_def)
  have h4: "fst (sync_order (ex_env no_faults RequestException) (Order ex_order) ex_db)
              = Inr True"
    using run_ok by (simp add: split_beta)
  have h5: "fst (order_exists ex_order (get_database_prefix ex_order) ex_db) = Inr False"
    by (simp add: order_exists_result order_rows_def ex_db_def ex_tables_def)
  show ?thesis
    using h1 h2 h3 h4 h5
      duplicate_sync_spec [of ex_order synced_db ex_customer "ex_env no_faults RequestException"]
      duplicate_sync_spec [of ex_order ex_db _ "ex_env no_faults RequestException"
          "ex_env fail_commit RequestException"]
    by blast
qed

end
